theory Spec2Isabelle
  imports Main "HOL-Library.Word"
begin

section \<open>Data model\<close>

text \<open>
  Modelled from the spec: the \<^verbatim>\<open>constants\<close> package that declares the status
  enumeration is not among the sources. The six statuses are the ones the service
  names (section 4.5 of the specification); \<open>KafkaStatus_String\<close> is their textual
  form, which is what the \<^verbatim>\<open>status\<close> column of a row holds.
\<close>

datatype KafkaStatus =
    KafkaRequestStatusAccepted
  | KafkaRequestStatusProvisioning
  | KafkaRequestStatusReady
  | KafkaRequestStatusFailed
  | KafkaRequestStatusDeprovision
  | KafkaRequestStatusDeleting

fun KafkaStatus_String :: "KafkaStatus \<Rightarrow> string" where
  "KafkaStatus_String KafkaRequestStatusAccepted = ''accepted''"
| "KafkaStatus_String KafkaRequestStatusProvisioning = ''provisioning''"
| "KafkaStatus_String KafkaRequestStatusReady = ''ready''"
| "KafkaStatus_String KafkaRequestStatusFailed = ''failed''"
| "KafkaStatus_String KafkaRequestStatusDeprovision = ''deprovision''"
| "KafkaStatus_String KafkaRequestStatusDeleting = ''deleting''"

datatype KafkaOperation = KafkaOperationDeprovision | KafkaOperationDelete

text \<open>
  A row of the \<^verbatim>\<open>kafka_requests\<close> table (\<^verbatim>\<open>api.KafkaRequest\<close>), with the fields the
  service reads or writes. Times are nanoseconds counted from Go's zero
  \<^verbatim>\<open>time.Time\<close>, so \<open>0\<close> is the zero time; \<open>DeletedAt\<close> is the soft-delete stamp.
\<close>

record KafkaRequest =
  ID :: string
  CreatedAt :: int
  UpdatedAt :: int
  DeletedAt :: "int option"
  Region :: string
  ClusterID :: string
  Name :: string
  Status :: string
  SsoClientID :: string
  SsoClientSecret :: string
  Owner :: string
  OrganisationId :: string
  BootstrapServerHost :: string
  PlacementId :: string
  Version :: string

text \<open>
  Service errors carry a code and the public reason; the wrapped cause is kept by the
  program for logging only and is not part of the value here.
\<close>

datatype ErrorCode =
    ErrorGeneral
  | ErrorValidation
  | ErrorUnauthenticated
  | ErrorNotFound
  | ErrorTooManyKafkaInstancesReached
  | ErrorInsufficientQuota
  | ErrorFailedToCheckQuota
  | ErrorFailedToCreateSSOClient

datatype ServiceError = ServiceError (Code: ErrorCode) (Reason: string)

text \<open>
  A Go \<^verbatim>\<open>error\<close> as the service meets it: the store's "record not found", any other
  failure with its message, or a service error passed on as a plain error.
\<close>

datatype go_error =
    ErrRecordNotFound
  | ErrOther string
  | ErrService ServiceError

subsection \<open>DNS change batches\<close>

record ResourceRecord =
  rr_Value :: string

record ResourceRecordSet =
  rrs_Name :: string
  rrs_Type :: string
  rrs_TTL :: int
  rrs_ResourceRecords :: "ResourceRecord list"

record Change =
  ch_Action :: string
  ch_ResourceRecordSet :: ResourceRecordSet

record ChangeBatch =
  Changes :: "Change list"

subsection \<open>Configuration and collaborators\<close>

record KafkaConfig =
  MaxCapacity :: int
  EnableQuotaService :: bool
  DefaultKafkaVersion :: string
  EnableKafkaExternalCertificate :: bool
  KafkaDomainName :: string
  NumOfBrokers :: int
  LongLivedKafkas :: "string list"

record KeycloakConfig =
  EnableAuthenticationOnKafka :: bool

text \<open>The store statements the service issues, one name per call site.\<close>

datatype db_call =
    DbCount
  | DbSave
  | DbFirstById
  | DbFirstByIdAndOwner
  | DbUpdates
  | DbUpdateStatus
  | DbUpdateExpired
  | DbDelete

text \<open>
  The service value: its configuration, its collaborators, and the declarations of the
  repository that the excerpt uses but does not contain, taken as parameters.
  A collaborator is the function from the arguments of a call to the values it
  returns; an error is \<open>Some\<close> of its text, \<open>None\<close> is Go's \<^verbatim>\<open>nil\<close>.
  \<open>connectionFactory\<close> tells for each store statement whether the store fails it
  (\<open>Some\<close> the error text); a failed statement changes no row.
\<close>

record kafkaService =
  connectionFactory :: "db_call \<Rightarrow> string option"
  clusterService_GetClusterDNS :: "string \<Rightarrow> string \<times> string option"
  keycloakService_GetConfig :: KeycloakConfig
  keycloakService_RegisterKafkaClientInSSO :: "string \<Rightarrow> string \<Rightarrow> string \<times> string option"
  keycloakService_DeRegisterClientInSSO :: "string \<Rightarrow> string option"
  kafkaConfig :: KafkaConfig
  quotaService_ReserveQuota ::
    "string \<Rightarrow> string \<Rightarrow> string \<Rightarrow> string \<Rightarrow> bool \<Rightarrow> string \<Rightarrow> bool \<times> string \<times> string option"
  aws_NewClient :: "string \<Rightarrow> string option"
  aws_ChangeResourceRecordSets :: "string \<Rightarrow> ChangeBatch \<Rightarrow> string option"
  time_Now :: int
  uuid_New :: string
  api_NewID :: string
  DefaultIngressDnsNamePrefix :: string
  ManagedKafkaIngressDnsNamePrefix :: string
  buildTruncateKafkaIdentifier :: "KafkaRequest \<Rightarrow> string"
  replaceHostSpecialChar :: "string \<Rightarrow> string \<times> string option"
  BuildKeycloakClientNameIdentifier :: "string \<Rightarrow> string"
  handleGetError :: "string \<Rightarrow> string \<Rightarrow> string \<Rightarrow> go_error \<Rightarrow> ServiceError"

text \<open>
  What a call leaves behind outside the table: the requests sent to the quota
  authority, the identity provider and the DNS authority (recorded when sent, whether
  or not the collaborator then reports an error), and the metrics emitted, in the
  order they happen.
\<close>

datatype effect =
    QuotaReserve string string string string bool string
  | SsoRegister string string
  | SsoDeRegister string
  | DnsChange string ChangeBatch
  | IncreaseKafkaTotalOperationsCountMetric KafkaOperation
  | IncreaseKafkaSuccessOperationsCountMetric KafkaOperation
  | UpdateKafkaRequestsStatusSinceCreatedMetric KafkaStatus string string int

record world =
  rows :: "KafkaRequest list"
  effects :: "effect list"

definition emit :: "effect \<Rightarrow> world \<Rightarrow> world" where
  "emit e w = w\<lparr>effects := effects w @ [e]\<rparr>"

text \<open>The effects that reach the DNS authority or the identity provider.\<close>

fun dns_or_identity_effect :: "effect \<Rightarrow> bool" where
  "dns_or_identity_effect (SsoRegister c org) = True"
| "dns_or_identity_effect (SsoDeRegister c) = True"
| "dns_or_identity_effect (DnsChange z b) = True"
| "dns_or_identity_effect e = False"

section \<open>The store\<close>

text \<open>
  The statements of the object-relational mapper, on the table as a list of rows.
  Every query and update sees only rows that are not soft-deleted.
\<close>

definition live :: "KafkaRequest \<Rightarrow> bool" where
  "live r = (DeletedAt r = None)"

definition db_Count :: "KafkaRequest list \<Rightarrow> int" where
  "db_Count rs = int (length (filter live rs))"

definition db_First :: "(KafkaRequest \<Rightarrow> bool) \<Rightarrow> KafkaRequest list \<Rightarrow> go_error + KafkaRequest" where
  "db_First p rs =
     (case filter (\<lambda>r. live r \<and> p r) rs of
        [] \<Rightarrow> Inl ErrRecordNotFound
      | r # _ \<Rightarrow> Inr r)"

definition db_Update_where ::
  "(KafkaRequest \<Rightarrow> bool) \<Rightarrow> (KafkaRequest \<Rightarrow> KafkaRequest) \<Rightarrow> KafkaRequest list \<Rightarrow> KafkaRequest list" where
  "db_Update_where p f rs = map (\<lambda>r. if live r \<and> p r then f r else r) rs"

definition db_RowsAffected :: "(KafkaRequest \<Rightarrow> bool) \<Rightarrow> KafkaRequest list \<Rightarrow> int" where
  "db_RowsAffected p rs = int (length (filter (\<lambda>r. live r \<and> p r) rs))"

text \<open>
  \<^verbatim>\<open>Save\<close> writes every field of the value: an insert when the value has no primary
  key (the creation hook then assigns a new id) or when no live row carries its key,
  an update of the rows carrying it otherwise. The value is returned as written.
\<close>

definition db_Save :: "int \<Rightarrow> string \<Rightarrow> KafkaRequest \<Rightarrow> KafkaRequest list \<Rightarrow> KafkaRequest \<times> KafkaRequest list" where
  "db_Save now newid r rs =
     (if ID r \<noteq> [] \<and> (\<exists>x \<in> set rs. live x \<and> ID x = ID r) then
        (let r' = r\<lparr>UpdatedAt := now\<rparr>
         in (r', db_Update_where (\<lambda>x. ID x = ID r) (\<lambda>x. r') rs))
      else
        (let r' = r\<lparr>ID := (if ID r = [] then newid else ID r),
                     CreatedAt := (if CreatedAt r = 0 then now else CreatedAt r),
                     UpdatedAt := now\<rparr>
         in (r', rs @ [r'])))"

definition db_Delete :: "int \<Rightarrow> KafkaRequest \<Rightarrow> KafkaRequest list \<Rightarrow> KafkaRequest list" where
  "db_Delete now r rs = db_Update_where (\<lambda>x. ID x = ID r) (\<lambda>x. x\<lparr>DeletedAt := Some now\<rparr>) rs"

section \<open>The Kafka service\<close>

definition productId :: string where
  "productId = ''RHOSAKTrial''"

definition kafkaDeletionStatuses :: "string list" where
  "kafkaDeletionStatuses =
     [KafkaStatus_String KafkaRequestStatusDeleting, KafkaStatus_String KafkaRequestStatusDeprovision]"

definition NewWithCause :: "ErrorCode \<Rightarrow> string \<Rightarrow> ServiceError" where
  "NewWithCause code reason = ServiceError code reason"

definition GeneralError :: "string \<Rightarrow> ServiceError" where
  "GeneralError reason = ServiceError ErrorGeneral reason"

definition Validation :: "string \<Rightarrow> ServiceError" where
  "Validation reason = ServiceError ErrorValidation reason"

definition TooManyKafkaInstancesReached :: "string \<Rightarrow> ServiceError" where
  "TooManyKafkaInstancesReached reason = ServiceError ErrorTooManyKafkaInstancesReached reason"

definition InsufficientQuotaError :: "string \<Rightarrow> ServiceError" where
  "InsufficientQuotaError reason = ServiceError ErrorInsufficientQuota reason"

definition FailedToCreateSSOClient :: "string \<Rightarrow> ServiceError" where
  "FailedToCreateSSOClient reason = ServiceError ErrorFailedToCreateSSOClient reason"

subsection \<open>Capacity gate and admission\<close>

definition HasAvailableCapacity :: "kafkaService \<Rightarrow> world \<Rightarrow> bool \<times> ServiceError option" where
  "HasAvailableCapacity k w =
     (case connectionFactory k DbCount of
        Some err \<Rightarrow> (False, Some (NewWithCause ErrorGeneral ''failed to count kafka request''))
      | None \<Rightarrow> (db_Count (rows w) < MaxCapacity (kafkaConfig k), None))"

text \<open>
  \<open>RegisterKafkaJob\<close> returns the error (if any), the request as the call leaves it
  (the caller's value is updated in place), and the world after the call. The
  admission lock is not modelled: calls are taken one at a time.
\<close>

definition RegisterKafkaJob ::
  "kafkaService \<Rightarrow> KafkaRequest \<Rightarrow> world \<Rightarrow> ServiceError option \<times> KafkaRequest \<times> world" where
  "RegisterKafkaJob k kafkaRequest w =
     (case HasAvailableCapacity k w of
        (hasCapacity, Some err) \<Rightarrow>
          (Some (NewWithCause ErrorGeneral ''failed to create kafka request''), kafkaRequest, w)
      | (hasCapacity, None) \<Rightarrow>
          (if \<not> hasCapacity then
             (Some (TooManyKafkaInstancesReached ''cluster capacity exhausted''), kafkaRequest, w)
           else
             (let (isAllowed, reservation, err) =
                    (if EnableQuotaService (kafkaConfig k) then
                       quotaService_ReserveQuota k productId (ClusterID kafkaRequest) (uuid_New k)
                         (Owner kafkaRequest) False ''single''
                     else (True, [], None));
                  w1 =
                    (if EnableQuotaService (kafkaConfig k) then
                       emit (QuotaReserve productId (ClusterID kafkaRequest) (uuid_New k)
                               (Owner kafkaRequest) False ''single'') w
                     else w)
              in
                if err \<noteq> None then
                  (Some (NewWithCause ErrorFailedToCheckQuota ''failed to create kafka request''),
                   kafkaRequest, w1)
                else if \<not> isAllowed then
                  (Some (InsufficientQuotaError ''Insufficient Quota''), kafkaRequest, w1)
                else
                  (let kafkaRequest1 =
                         kafkaRequest\<lparr>Version := DefaultKafkaVersion (kafkaConfig k),
                                      Status := KafkaStatus_String KafkaRequestStatusAccepted\<rparr>
                   in
                     (case connectionFactory k DbSave of
                        Some dbErr \<Rightarrow>
                          (Some (NewWithCause ErrorGeneral ''failed to create kafka request''),
                           kafkaRequest1, w1)
                      | None \<Rightarrow>
                          (let saved = fst (db_Save (time_Now k) (api_NewID k) kafkaRequest1 (rows w1));
                               rs = snd (db_Save (time_Now k) (api_NewID k) kafkaRequest1 (rows w1))
                           in
                             (None, saved,
                              emit (UpdateKafkaRequestsStatusSinceCreatedMetric
                                      KafkaRequestStatusAccepted (ID saved) (ClusterID saved)
                                      (time_Now k - CreatedAt saved))
                                (w1\<lparr>rows := rs\<rparr>))))))))"

subsection \<open>DNS record manager\<close>

text \<open>
  \<^verbatim>\<open>fmt.Sprintf("%d", i)\<close>: the decimal numeral of an integer.
\<close>

fun decimal_of_nat :: "nat \<Rightarrow> string" where
  "decimal_of_nat n =
     (if n < 10 then [''0123456789'' ! n]
      else decimal_of_nat (n div 10) @ [''0123456789'' ! (n mod 10)])"

declare decimal_of_nat.simps [simp del]

definition Sprintf_d :: "int \<Rightarrow> string" where
  "Sprintf_d i = (if i < 0 then CHR ''-'' # decimal_of_nat (nat (- i)) else decimal_of_nat (nat i))"

definition buildResourceRecordChange :: "string \<Rightarrow> string \<Rightarrow> string \<Rightarrow> Change" where
  "buildResourceRecordChange recordName clusterIngress action =
     \<lparr>ch_Action = action,
      ch_ResourceRecordSet =
        \<lparr>rrs_Name = recordName,
         rrs_Type = ''CNAME'',
         rrs_TTL = 300,
         rrs_ResourceRecords = [\<lparr>rr_Value = clusterIngress\<rparr>]\<rparr>\<rparr>"

text \<open>
  The loop \<^verbatim>\<open>for i := 0; i < kafkaConfig.NumOfBrokers; i++\<close> of
  \<open>buildKafkaClusterCNAMESRecordBatch\<close>, appending one change per broker.
\<close>

function brokerChanges :: "int \<Rightarrow> int \<Rightarrow> string \<Rightarrow> string \<Rightarrow> string \<Rightarrow> Change list \<Rightarrow> Change list" where
  "brokerChanges i n recordName clusterIngress action changes =
     (if i < n then
        brokerChanges (i + 1) n recordName clusterIngress action
          (changes @ [buildResourceRecordChange (''broker-'' @ Sprintf_d i @ ''-'' @ recordName)
                        clusterIngress action])
      else changes)"
  by pat_completeness auto
termination
  by (relation "measure (\<lambda>(i, n, recordName, clusterIngress, action, changes). nat (n - i))") auto

declare brokerChanges.simps [simp del]

definition buildKafkaClusterCNAMESRecordBatch :: "string \<Rightarrow> string \<Rightarrow> string \<Rightarrow> KafkaConfig \<Rightarrow> ChangeBatch" where
  "buildKafkaClusterCNAMESRecordBatch recordName clusterIngress action cfg =
     (let clusterIngress1 = ''elb.'' @ clusterIngress
      in \<lparr>Changes =
            brokerChanges 0 (NumOfBrokers cfg) recordName clusterIngress1 action
              [buildResourceRecordChange recordName clusterIngress1 action,
               buildResourceRecordChange (''admin-server-'' @ recordName) clusterIngress1 action]\<rparr>)"

definition ChangeKafkaCNAMErecords ::
  "kafkaService \<Rightarrow> KafkaRequest \<Rightarrow> string \<Rightarrow> string \<Rightarrow> world \<Rightarrow> ServiceError option \<times> world" where
  "ChangeKafkaCNAMErecords k kafkaRequest clusterDNS action w =
     (let domainRecordBatch =
            buildKafkaClusterCNAMESRecordBatch (BootstrapServerHost kafkaRequest) clusterDNS action
              (kafkaConfig k)
      in
        (case aws_NewClient k (Region kafkaRequest) of
           Some err \<Rightarrow> (Some (NewWithCause ErrorGeneral ''Unable to create aws client''), w)
         | None \<Rightarrow>
             (case aws_ChangeResourceRecordSets k (KafkaDomainName (kafkaConfig k)) domainRecordBatch of
                Some err \<Rightarrow>
                  (Some (NewWithCause ErrorGeneral ''Unable to create domain record sets''),
                   emit (DnsChange (KafkaDomainName (kafkaConfig k)) domainRecordBatch) w)
              | None \<Rightarrow>
                  (None, emit (DnsChange (KafkaDomainName (kafkaConfig k)) domainRecordBatch) w))))"

subsection \<open>Field-scoped update and the status guard\<close>

text \<open>
  \<^verbatim>\<open>Updates\<close> with a struct writes the fields of the struct that are not their zero
  value, and stamps \<open>UpdatedAt\<close>; the primary key of the struct selects the row.
\<close>

definition nonzero :: "'a \<Rightarrow> 'a \<Rightarrow> 'a \<Rightarrow> 'a" where
  "nonzero zero new old = (if new = zero then old else new)"

definition db_Updates_fields :: "int \<Rightarrow> KafkaRequest \<Rightarrow> KafkaRequest \<Rightarrow> KafkaRequest" where
  "db_Updates_fields now src dst =
     dst\<lparr>CreatedAt := nonzero 0 (CreatedAt src) (CreatedAt dst),
         UpdatedAt := now,
         DeletedAt := nonzero None (DeletedAt src) (DeletedAt dst),
         Region := nonzero [] (Region src) (Region dst),
         ClusterID := nonzero [] (ClusterID src) (ClusterID dst),
         Name := nonzero [] (Name src) (Name dst),
         Status := nonzero [] (Status src) (Status dst),
         SsoClientID := nonzero [] (SsoClientID src) (SsoClientID dst),
         SsoClientSecret := nonzero [] (SsoClientSecret src) (SsoClientSecret dst),
         Owner := nonzero [] (Owner src) (Owner dst),
         OrganisationId := nonzero [] (OrganisationId src) (OrganisationId dst),
         BootstrapServerHost := nonzero [] (BootstrapServerHost src) (BootstrapServerHost dst),
         PlacementId := nonzero [] (PlacementId src) (PlacementId dst),
         Version := nonzero [] (Version src) (Version dst)\<rparr>"

definition Update :: "kafkaService \<Rightarrow> KafkaRequest \<Rightarrow> world \<Rightarrow> ServiceError option \<times> world" where
  "Update k kafkaRequest w =
     (case connectionFactory k DbUpdates of
        Some err \<Rightarrow> (Some (NewWithCause ErrorGeneral ''Failed to update kafka''), w)
      | None \<Rightarrow>
          (None,
           w\<lparr>rows :=
               db_Update_where
                 (\<lambda>r. ID r = ID kafkaRequest \<and> Status r \<notin> set kafkaDeletionStatuses)
                 (db_Updates_fields (time_Now k) kafkaRequest) (rows w)\<rparr>))"

definition GetById :: "kafkaService \<Rightarrow> string \<Rightarrow> world \<Rightarrow> ServiceError + KafkaRequest" where
  "GetById k id' w =
     (if id' = [] then Inl (Validation ''id is undefined'')
      else
        (case connectionFactory k DbFirstById of
           Some err \<Rightarrow> Inl (handleGetError k ''KafkaResource'' ''id'' id' (ErrOther err))
         | None \<Rightarrow>
             (case db_First (\<lambda>r. ID r = id') (rows w) of
                Inl err \<Rightarrow> Inl (handleGetError k ''KafkaResource'' ''id'' id' err)
              | Inr kafkaRequest \<Rightarrow> Inr kafkaRequest)))"

text \<open>
  \<open>UpdateStatus\<close> returns the flag "the update has been tried", the error, and the
  world after the call.
\<close>

definition UpdateStatus ::
  "kafkaService \<Rightarrow> string \<Rightarrow> KafkaStatus \<Rightarrow> world \<Rightarrow> bool \<times> ServiceError option \<times> world" where
  "UpdateStatus k id' status w =
     (case GetById k id' w of
        Inl err \<Rightarrow> (True, Some (NewWithCause ErrorGeneral ''failed to update status''), w)
      | Inr kafka \<Rightarrow>
          (if Status kafka = KafkaStatus_String KafkaRequestStatusDeprovision
                \<and> status \<noteq> KafkaRequestStatusDeleting then
             (False, Some (GeneralError ''failed to update status: cluster is deprovisioning''), w)
           else if Status kafka = KafkaStatus_String status then
             (False,
              Some (GeneralError (''failed to update status: the cluster '' @ id' @ '' is already in ''
                      @ KafkaStatus_String status @ '' state'')),
              w)
           else
             (case connectionFactory k DbUpdateStatus of
                Some err \<Rightarrow> (True, Some (NewWithCause ErrorGeneral ''Failed to update kafka status''), w)
              | None \<Rightarrow>
                  (True, None,
                   w\<lparr>rows :=
                       db_Update_where (\<lambda>r. ID r = id')
                         (\<lambda>r. r\<lparr>Status := KafkaStatus_String status, UpdatedAt := time_Now k\<rparr>)
                         (rows w)\<rparr>))))"

subsection \<open>Preparation\<close>

text \<open>
  \<^verbatim>\<open>strings.Replace(s, old, new, 1)\<close>: the first occurrence of \<open>old\<close> in \<open>s\<close> is
  replaced by \<open>new\<close>; an empty \<open>old\<close> matches at the start of \<open>s\<close>.
\<close>

fun strings_Replace_first :: "string \<Rightarrow> string \<Rightarrow> string \<Rightarrow> string" where
  "strings_Replace_first [] old new = (if old = [] then new else [])"
| "strings_Replace_first (c # cs) old new =
     (if take (length old) (c # cs) = old then new @ drop (length old) (c # cs)
      else c # strings_Replace_first cs old new)"

text \<open>
  The value handed to \<open>Update\<close> at the end of the preparation: a request with the id,
  the bootstrap host, the identity client and the status Provisioning, and every other
  field at its zero value.
\<close>

definition updatedKafkaRequest :: "KafkaRequest \<Rightarrow> KafkaRequest" where
  "updatedKafkaRequest kafkaRequest =
     \<lparr>ID = ID kafkaRequest,
      CreatedAt = 0,
      UpdatedAt = 0,
      DeletedAt = None,
      Region = [],
      ClusterID = [],
      Name = [],
      Status = KafkaStatus_String KafkaRequestStatusProvisioning,
      SsoClientID = SsoClientID kafkaRequest,
      SsoClientSecret = SsoClientSecret kafkaRequest,
      Owner = [],
      OrganisationId = [],
      BootstrapServerHost = BootstrapServerHost kafkaRequest,
      PlacementId = [],
      Version = []\<rparr>"

text \<open>
  \<open>PrepareKafkaRequest\<close> returns the error, the request as the call leaves it, and
  the world after the call.
\<close>

definition PrepareKafkaRequest ::
  "kafkaService \<Rightarrow> KafkaRequest \<Rightarrow> world \<Rightarrow> ServiceError option \<times> KafkaRequest \<times> world" where
  "PrepareKafkaRequest k kafkaRequest w =
     (let (truncatedKafkaIdentifier, replaceErr) =
            replaceHostSpecialChar k (buildTruncateKafkaIdentifier k kafkaRequest)
      in
        if replaceErr \<noteq> None then
          (Some (NewWithCause ErrorGeneral ''generated host is not valid''), kafkaRequest, w)
        else
          (let (clusterDNS0, err) = clusterService_GetClusterDNS k (ClusterID kafkaRequest)
           in
             if err \<noteq> None then
               (Some (NewWithCause ErrorGeneral ''error retrieving cluster DNS''), kafkaRequest, w)
             else
               (let clusterDNS =
                      strings_Replace_first clusterDNS0 (DefaultIngressDnsNamePrefix k)
                        (ManagedKafkaIngressDnsNamePrefix k);
                    kafkaRequest1 =
                      kafkaRequest\<lparr>BootstrapServerHost := truncatedKafkaIdentifier @ ''.'' @ clusterDNS\<rparr>;
                    kafkaRequest2 =
                      (if EnableKafkaExternalCertificate (kafkaConfig k) then
                         kafkaRequest1\<lparr>BootstrapServerHost :=
                           truncatedKafkaIdentifier @ ''.'' @ KafkaDomainName (kafkaConfig k)\<rparr>
                       else kafkaRequest1);
                    (cnameErr, w1) =
                      (if EnableKafkaExternalCertificate (kafkaConfig k) then
                         ChangeKafkaCNAMErecords k kafkaRequest2 clusterDNS ''CREATE'' w
                       else (None, w))
                in
                  if cnameErr \<noteq> None then (cnameErr, kafkaRequest2, w1)
                  else
                    (let authOn = EnableAuthenticationOnKafka (keycloakService_GetConfig k);
                         ssoClientID = BuildKeycloakClientNameIdentifier k (ID kafkaRequest2);
                         (secret, ssoErr) =
                           (if authOn then
                              keycloakService_RegisterKafkaClientInSSO k ssoClientID
                                (OrganisationId kafkaRequest2)
                            else (SsoClientSecret kafkaRequest2, None));
                         kafkaRequest3 =
                           (if authOn then
                              kafkaRequest2\<lparr>SsoClientID := ssoClientID, SsoClientSecret := secret\<rparr>
                            else kafkaRequest2);
                         w2 =
                           (if authOn then
                              emit (SsoRegister ssoClientID (OrganisationId kafkaRequest2)) w1
                            else w1)
                     in
                       (case ssoErr of
                          Some ssoErrText \<Rightarrow>
                            (Some (FailedToCreateSSOClient
                                     (''failed to create sso client '' @ SsoClientID kafkaRequest3
                                        @ '':'' @ ssoErrText)),
                             kafkaRequest3, w2)
                        | None \<Rightarrow>
                            (let (updErr, w3) = Update k (updatedKafkaRequest kafkaRequest3) w2
                             in
                               if updErr \<noteq> None then
                                 (Some (NewWithCause ErrorGeneral ''failed to update kafka request''),
                                  kafkaRequest3, w3)
                               else (None, kafkaRequest3, w3)))))))"

subsection \<open>Deprovisioning and deletion\<close>




text \<open>
  The counting loop \<^verbatim>\<open>for ; counter < RowsAffected; counter++\<close> of the bulk
  deprovision calls: two counters are increased per affected row.
\<close>

function countDeprovisioned :: "int \<Rightarrow> int \<Rightarrow> world \<Rightarrow> world" where
  "countDeprovisioned counter rowsAffected w =
     (if counter < rowsAffected then
        countDeprovisioned (counter + 1) rowsAffected
          (emit (IncreaseKafkaSuccessOperationsCountMetric KafkaOperationDeprovision)
             (emit (IncreaseKafkaTotalOperationsCountMetric KafkaOperationDeprovision) w))
      else w)"
  by pat_completeness auto
termination
  by (relation "measure (\<lambda>(counter, rowsAffected, w). nat (rowsAffected - counter))") auto

declare countDeprovisioned.simps [simp del]

text \<open>
  \<^verbatim>\<open>time.Hour\<close> is 3600000000000 nanoseconds; a \<^verbatim>\<open>time.Duration\<close> is a signed 64-bit
  count of nanoseconds, and its multiplication wraps around. The age in hours is a Go
  \<^verbatim>\<open>int\<close>, 64 bits wide on the 64-bit platforms the service runs on. \<open>expiryCutoff\<close> is
  \<^verbatim>\<open>time.Now().Add(-1*time.Duration(kafkaAgeInHours)*time.Hour)\<close>.
\<close>

definition time_Hour :: "64 word" where
  "time_Hour = 3600000000000"

definition expiryCutoff :: "kafkaService \<Rightarrow> 64 word \<Rightarrow> int" where
  "expiryCutoff k kafkaAgeInHours = time_Now k + sint ((- 1) * kafkaAgeInHours * time_Hour)"

definition expired :: "kafkaService \<Rightarrow> 64 word \<Rightarrow> KafkaRequest \<Rightarrow> bool" where
  "expired k kafkaAgeInHours r =
     (CreatedAt r \<le> expiryCutoff k kafkaAgeInHours
      \<and> Status r \<notin> set kafkaDeletionStatuses
      \<and> (if length (LongLivedKafkas (kafkaConfig k)) > 0
         then ID r \<notin> set (LongLivedKafkas (kafkaConfig k)) else True))"

definition DeprovisionExpiredKafkas :: "kafkaService \<Rightarrow> 64 word \<Rightarrow> world \<Rightarrow> ServiceError option \<times> world" where
  "DeprovisionExpiredKafkas k kafkaAgeInHours w =
     (case connectionFactory k DbUpdateExpired of
        Some err \<Rightarrow> (Some (NewWithCause ErrorGeneral ''unable to deprovision expired kafkas''), w)
      | None \<Rightarrow>
          (let rowsAffected = db_RowsAffected (expired k kafkaAgeInHours) (rows w);
               w1 = w\<lparr>rows :=
                      db_Update_where (expired k kafkaAgeInHours)
                        (\<lambda>r. r\<lparr>Status := KafkaStatus_String KafkaRequestStatusDeprovision,
                                UpdatedAt := time_Now k\<rparr>)
                        (rows w)\<rparr>
           in
             if rowsAffected \<ge> 1 then (None, countDeprovisioned 0 rowsAffected w1)
             else (None, w1)))"

definition Delete :: "kafkaService \<Rightarrow> KafkaRequest \<Rightarrow> world \<Rightarrow> ServiceError option \<times> world" where
  "Delete k kafkaRequest w =
     (let authOn = ClusterID kafkaRequest \<noteq> []
                     \<and> EnableAuthenticationOnKafka (keycloakService_GetConfig k);
          clientId = BuildKeycloakClientNameIdentifier k (ID kafkaRequest);
          keycloakErr = (if authOn then keycloakService_DeRegisterClientInSSO k clientId else None);
          w1 = (if authOn then emit (SsoDeRegister clientId) w else w)
      in
        if keycloakErr \<noteq> None then
          (Some (NewWithCause ErrorGeneral ''error deleting sso client''), w1)
        else
          (let certOn = ClusterID kafkaRequest \<noteq> []
                          \<and> EnableKafkaExternalCertificate (kafkaConfig k);
               (clusterDNS0, dnsErr) =
                 (if certOn then clusterService_GetClusterDNS k (ClusterID kafkaRequest)
                  else ([], None))
           in
             if dnsErr \<noteq> None then
               (Some (NewWithCause ErrorGeneral ''error retrieving cluster DNS''), w1)
             else
               (let clusterDNS =
                      strings_Replace_first clusterDNS0 (DefaultIngressDnsNamePrefix k)
                        (ManagedKafkaIngressDnsNamePrefix k);
                    (cnameErr, w2) =
                      (if certOn then ChangeKafkaCNAMErecords k kafkaRequest clusterDNS ''DELETE'' w1
                       else (None, w1))
                in
                  if cnameErr \<noteq> None then (cnameErr, w2)
                  else
                    (case connectionFactory k DbDelete of
                       Some err \<Rightarrow>
                         (Some (NewWithCause ErrorGeneral
                                  (''unable to delete kafka request with id '' @ ID kafkaRequest)),
                          w2)
                     | None \<Rightarrow>
                         (None,
                          emit (IncreaseKafkaSuccessOperationsCountMetric KafkaOperationDelete)
                            (emit (IncreaseKafkaTotalOperationsCountMetric KafkaOperationDelete)
                               (w2\<lparr>rows := db_Delete (time_Now k) kafkaRequest (rows w2)\<rparr>)))))))"

section \<open>Example values\<close>

text \<open>Concrete configurations, services and tables on which the properties are exercised.\<close>

definition example_config :: KafkaConfig where
  "example_config =
     \<lparr>MaxCapacity = 10, EnableQuotaService = False, DefaultKafkaVersion = ''2.7.0'',
      EnableKafkaExternalCertificate = False, KafkaDomainName = ''kafka.example.com'',
      NumOfBrokers = 3, LongLivedKafkas = [''keep'']\<rparr>"

definition example_row :: "string \<Rightarrow> string \<Rightarrow> int \<Rightarrow> KafkaRequest" where
  "example_row rid st created =
     \<lparr>ID = rid, CreatedAt = created, UpdatedAt = created, DeletedAt = None,
      Region = ''us-east-1'', ClusterID = ''c1'', Name = ''orders'', Status = st,
      SsoClientID = [], SsoClientSecret = [], Owner = ''u1'', OrganisationId = ''org1'',
      BootstrapServerHost = [], PlacementId = [], Version = ''2.7.0''\<rparr>"

definition example_handleGetError :: "string \<Rightarrow> string \<Rightarrow> string \<Rightarrow> go_error \<Rightarrow> ServiceError" where
  "example_handleGetError resourceType field v err =
     (case err of
        ErrRecordNotFound \<Rightarrow> ServiceError ErrorNotFound (resourceType @ '' not found'')
      | ErrOther e \<Rightarrow> ServiceError ErrorGeneral (''Unable to find '' @ resourceType)
      | ErrService e \<Rightarrow> ServiceError ErrorGeneral (''Unable to find '' @ resourceType))"

definition example_service :: kafkaService where
  "example_service =
     \<lparr>connectionFactory = (\<lambda>c. None),
      clusterService_GetClusterDNS = (\<lambda>c. (''apps.cluster1.example.com'', None)),
      keycloakService_GetConfig = \<lparr>EnableAuthenticationOnKafka = False\<rparr>,
      keycloakService_RegisterKafkaClientInSSO = (\<lambda>c org. (''secret'', None)),
      keycloakService_DeRegisterClientInSSO = (\<lambda>c. None),
      kafkaConfig = example_config,
      quotaService_ReserveQuota = (\<lambda>p c r ow b t. (True, r, None)),
      aws_NewClient = (\<lambda>region. None),
      aws_ChangeResourceRecordSets = (\<lambda>zone batch. None),
      time_Now = 3600000000000000,
      uuid_New = ''uuid-1'',
      api_NewID = ''new-1'',
      DefaultIngressDnsNamePrefix = ''apps'',
      ManagedKafkaIngressDnsNamePrefix = ''mk'',
      buildTruncateKafkaIdentifier = (\<lambda>r. take 10 (Name r) @ ''-'' @ ID r),
      replaceHostSpecialChar = (\<lambda>s. (s, None)),
      BuildKeycloakClientNameIdentifier = (\<lambda>i. ''kafka-'' @ i),
      handleGetError = example_handleGetError\<rparr>"

definition failing :: "db_call \<Rightarrow> kafkaService \<Rightarrow> kafkaService" where
  "failing c k = k\<lparr>connectionFactory := (\<lambda>x. if x = c then Some ''connection refused'' else None)\<rparr>"

definition example_world :: world where
  "example_world =
     \<lparr>rows = [example_row ''k1'' ''accepted'' 3240000000000000,
              example_row ''k2'' ''deprovision'' 3240000000000000,
              example_row ''keep'' ''ready'' 3240000000000000,
              example_row ''k3'' ''ready'' 3596400000000000],
      effects = []\<rparr>"

definition example_request :: KafkaRequest where
  "example_request =
     \<lparr>ID = [], CreatedAt = 0, UpdatedAt = 0, DeletedAt = None,
      Region = ''us-east-1'', ClusterID = [], Name = ''payments'', Status = [],
      SsoClientID = [], SsoClientSecret = [], Owner = ''u1'', OrganisationId = ''org1'',
      BootstrapServerHost = [], PlacementId = [], Version = []\<rparr>"

definition with_quota :: "bool \<times> string \<times> string option \<Rightarrow> kafkaService \<Rightarrow> kafkaService" where
  "with_quota answer k =
     k\<lparr>kafkaConfig := (kafkaConfig k)\<lparr>EnableQuotaService := True\<rparr>,
       quotaService_ReserveQuota := (\<lambda>p c r ow b t. answer)\<rparr>"

definition with_capacity :: "int \<Rightarrow> kafkaService \<Rightarrow> kafkaService" where
  "with_capacity m k = k\<lparr>kafkaConfig := (kafkaConfig k)\<lparr>MaxCapacity := m\<rparr>\<rparr>"

definition with_external_certificate :: "kafkaService \<Rightarrow> kafkaService" where
  "with_external_certificate k =
     k\<lparr>kafkaConfig := (kafkaConfig k)\<lparr>EnableKafkaExternalCertificate := True\<rparr>\<rparr>"

definition with_authentication :: "string \<times> string option \<Rightarrow> kafkaService \<Rightarrow> kafkaService" where
  "with_authentication answer k =
     k\<lparr>keycloakService_GetConfig := \<lparr>EnableAuthenticationOnKafka = True\<rparr>,
       keycloakService_RegisterKafkaClientInSSO := (\<lambda>c org. answer)\<rparr>"

definition with_deregister_failure :: "kafkaService \<Rightarrow> kafkaService" where
  "with_deregister_failure k =
     k\<lparr>keycloakService_GetConfig := \<lparr>EnableAuthenticationOnKafka = True\<rparr>,
       keycloakService_DeRegisterClientInSSO := (\<lambda>c. Some ''identity provider unavailable'')\<rparr>"

definition with_dns_failure :: "kafkaService \<Rightarrow> kafkaService" where
  "with_dns_failure k =
     k\<lparr>kafkaConfig := (kafkaConfig k)\<lparr>EnableKafkaExternalCertificate := True\<rparr>,
       aws_ChangeResourceRecordSets := (\<lambda>zone batch. Some ''throttled'')\<rparr>"


section \<open>Properties\<close>

text \<open>The definitions of the example values, for evaluation.\<close>

lemmas example_simps =
  example_world_def example_row_def example_service_def example_config_def failing_def
  example_handleGetError_def

lemmas example_simps2 = example_simps example_request_def with_quota_def with_capacity_def

lemmas example_simps3 = example_simps2 with_external_certificate_def with_authentication_def

lemmas example_simps4 = example_simps3 with_deregister_failure_def with_dns_failure_def

subsection \<open>Shape of the DNS change batch\<close>

lemma brokerChanges_eq:
  "brokerChanges i n rn ci a cs =
     cs @ map (\<lambda>j. buildResourceRecordChange (''broker-'' @ Sprintf_d j @ ''-'' @ rn) ci a) [i..n - 1]"
proof (induction i n rn ci a cs rule: brokerChanges.induct)
  case (1 i n recordName clusterIngress action changes)
  show ?case
  proof (cases "i < n")
    case True
    then have "[i..n - 1] = i # [i + 1..n - 1]"
      by (simp add: upto_rec1)
    with True "1" show ?thesis
      by (subst brokerChanges.simps) simp
  next
    case False
    then show ?thesis
      by (subst brokerChanges.simps) simp
  qed
qed

lemma batch_Changes:
  "Changes (buildKafkaClusterCNAMESRecordBatch recordName clusterIngress action cfg) =
     buildResourceRecordChange recordName (''elb.'' @ clusterIngress) action
     # buildResourceRecordChange (''admin-server-'' @ recordName) (''elb.'' @ clusterIngress) action
     # map (\<lambda>j. buildResourceRecordChange (''broker-'' @ Sprintf_d j @ ''-'' @ recordName)
                 (''elb.'' @ clusterIngress) action) [0..NumOfBrokers cfg - 1]"
  by (simp add: buildKafkaClusterCNAMESRecordBatch_def brokerChanges_eq Let_def)

text \<open>
  Claim C6. For every bootstrap record name, cluster ingress, action and broker count
  \<open>n \<ge> 0\<close>, the CNAME change batch holds exactly \<open>n + 2\<close> changes: the bootstrap
  name, the name prefixed with \<open>admin-server-\<close>, and the names prefixed with
  \<open>broker-i-\<close> for \<open>i\<close> from \<open>0\<close> to \<open>n - 1\<close>, in this order; every change carries
  the action, has type CNAME and TTL 300, and its only record value is \<open>elb.\<close>
  followed by the cluster ingress. For \<open>n = 3\<close> the batch has 5 changes.
\<close>

theorem cname_batch_shape:
  assumes "0 \<le> NumOfBrokers cfg"
  shows "int (length (Changes (buildKafkaClusterCNAMESRecordBatch recordName clusterIngress action cfg)))
           = NumOfBrokers cfg + 2
       \<and> map (\<lambda>c. rrs_Name (ch_ResourceRecordSet c))
            (Changes (buildKafkaClusterCNAMESRecordBatch recordName clusterIngress action cfg))
           = recordName # (''admin-server-'' @ recordName)
             # map (\<lambda>i. ''broker-'' @ Sprintf_d i @ ''-'' @ recordName) [0..NumOfBrokers cfg - 1]
       \<and> (\<forall>c \<in> set (Changes (buildKafkaClusterCNAMESRecordBatch recordName clusterIngress action cfg)).
             ch_Action c = action
             \<and> rrs_Type (ch_ResourceRecordSet c) = ''CNAME''
             \<and> rrs_TTL (ch_ResourceRecordSet c) = 300
             \<and> rrs_ResourceRecords (ch_ResourceRecordSet c) = [\<lparr>rr_Value = ''elb.'' @ clusterIngress\<rparr>])
       \<and> (NumOfBrokers cfg = 3 \<longrightarrow>
             length (Changes (buildKafkaClusterCNAMESRecordBatch recordName clusterIngress action cfg)) = 5)"
  using assms
  by (auto simp add: batch_Changes buildResourceRecordChange_def comp_def)

theorem cname_batch_shape_witness:
  "length (Changes (buildKafkaClusterCNAMESRecordBatch ''b.kafka.example.com'' ''ing.example.com''
             ''CREATE'' example_config)) = 5
   \<and> map (\<lambda>c. rrs_Name (ch_ResourceRecordSet c))
        (Changes (buildKafkaClusterCNAMESRecordBatch ''b.kafka.example.com'' ''ing.example.com''
             ''CREATE'' example_config))
      = [''b.kafka.example.com'', ''admin-server-b.kafka.example.com'',
         ''broker-0-b.kafka.example.com'', ''broker-1-b.kafka.example.com'',
         ''broker-2-b.kafka.example.com'']"
proof -
  have n: "NumOfBrokers example_config = 3"
    by (simp add: example_config_def)
  have u: "[0..(2::int)] = [0, 1, 2]"
    by (simp add: upto_rec1)
  have d: "Sprintf_d 0 = ''0''" "Sprintf_d 1 = ''1''" "Sprintf_d 2 = ''2''"
    by (simp_all add: Sprintf_d_def decimal_of_nat.simps)
  from n have "0 \<le> NumOfBrokers example_config" by simp
  from cname_batch_shape [OF this, of "''b.kafka.example.com''" "''ing.example.com''" "''CREATE''"]
  show ?thesis
    by (simp add: n u d)
qed

lemma db_First_Inl_iff:
  "(\<exists>e. db_First p rs = Inl e) \<longleftrightarrow> (\<forall>r \<in> set rs. \<not> (live r \<and> p r))"
proof -
  have "(\<exists>e. db_First p rs = Inl e) \<longleftrightarrow> filter (\<lambda>r. live r \<and> p r) rs = []"
    by (simp add: db_First_def split: list.splits)
  then show ?thesis
    by (simp add: filter_empty_conv)
qed

subsection \<open>The status guard\<close>

text \<open>
  Claim C10. For every id whose initial fetch inside \<open>UpdateStatus\<close> fails (the id is
  empty, the store fails the query, or no live row carries the id), \<open>UpdateStatus\<close>
  returns the flag \<open>True\<close> together with an error and leaves the world as it was: the
  flag does not mean that a status was written.
\<close>

theorem UpdateStatus_fetch_fails:
  assumes "id' = [] \<or> connectionFactory k DbFirstById \<noteq> None
             \<or> (\<forall>r \<in> set (rows w). \<not> (live r \<and> ID r = id'))"
  shows "(\<exists>e. GetById k id' w = Inl e)
       \<and> UpdateStatus k id' status w
           = (True, Some (NewWithCause ErrorGeneral ''failed to update status''), w)"
proof -
  from assms have "\<exists>e. GetById k id' w = Inl e"
    using db_First_Inl_iff [of "\<lambda>r. ID r = id'" "rows w"]
    by (auto simp add: GetById_def split: option.splits sum.splits)
  then show ?thesis
    by (auto simp add: UpdateStatus_def)
qed

theorem UpdateStatus_fetch_fails_witness:
  "UpdateStatus example_service ''zz'' KafkaRequestStatusReady example_world
     = (True, Some (NewWithCause ErrorGeneral ''failed to update status''), example_world)
   \<and> UpdateStatus (failing DbFirstById example_service) ''k1'' KafkaRequestStatusReady example_world
     = (True, Some (NewWithCause ErrorGeneral ''failed to update status''), example_world)"
proof -
  have a: "\<forall>r \<in> set (rows example_world). \<not> (live r \<and> ID r = ''zz'')"
    by (simp add: example_world_def example_row_def)
  have b: "connectionFactory (failing DbFirstById example_service) DbFirstById \<noteq> None"
    by (simp add: failing_def)
  from a UpdateStatus_fetch_fails [of "''zz''" example_service example_world KafkaRequestStatusReady]
       b UpdateStatus_fetch_fails [of "''k1''" "failing DbFirstById example_service" example_world
           KafkaRequestStatusReady]
  show ?thesis by simp
qed

lemma GetById_found:
  assumes "id' \<noteq> []" "connectionFactory k DbFirstById = None"
      and "db_First (\<lambda>r. ID r = id') (rows w) = Inr kafka"
  shows "GetById k id' w = Inr kafka"
  using assms by (simp add: GetById_def)

lemma db_First_Inr:
  assumes "db_First p rs = Inr x"
  shows "x \<in> set rs \<and> live x \<and> p x"
proof -
  from assms obtain ys where "filter (\<lambda>r. live r \<and> p r) rs = x # ys"
    by (auto simp add: db_First_def split: list.splits)
  then have "x \<in> set (filter (\<lambda>r. live r \<and> p r) rs)"
    by simp
  then show ?thesis by simp
qed

text \<open>
  Claim C2, amended. Let the initial fetch of \<open>UpdateStatus\<close> succeed: the id is not
  empty, the store does not fail the query, and the store returns the live row
  \<open>kafka\<close> for the id. If the status of \<open>kafka\<close> is Deprovision and the new status is
  not Deleting, or if the new status equals the status of \<open>kafka\<close>, \<open>UpdateStatus\<close>
  returns the flag \<open>False\<close> (with a general error) and changes nothing. Otherwise the
  flag is \<open>True\<close>, with no check of the order of the statuses: when the store accepts
  the update, no error is returned and every live row with the id, \<open>kafka\<close> among
  them, gets the new status and the time of the update; when the store fails the
  update, the general error "Failed to update kafka status" is returned and nothing
  is written.
\<close>

theorem UpdateStatus_guard:
  assumes "id' \<noteq> []" "connectionFactory k DbFirstById = None"
      and "db_First (\<lambda>r. ID r = id') (rows w) = Inr kafka"
  shows "kafka \<in> set (rows w) \<and> live kafka \<and> ID kafka = id'
       \<and> (Status kafka = KafkaStatus_String KafkaRequestStatusDeprovision
            \<and> status \<noteq> KafkaRequestStatusDeleting
          \<longrightarrow> UpdateStatus k id' status w
                = (False, Some (GeneralError ''failed to update status: cluster is deprovisioning''), w))
       \<and> (Status kafka = KafkaStatus_String status
          \<longrightarrow> fst (UpdateStatus k id' status w) = False
              \<and> fst (snd (UpdateStatus k id' status w)) \<noteq> None
              \<and> snd (snd (UpdateStatus k id' status w)) = w)
       \<and> (\<not> (Status kafka = KafkaStatus_String KafkaRequestStatusDeprovision
                \<and> status \<noteq> KafkaRequestStatusDeleting)
            \<and> Status kafka = KafkaStatus_String status
          \<longrightarrow> UpdateStatus k id' status w
                = (False,
                   Some (GeneralError (''failed to update status: the cluster '' @ id'
                           @ '' is already in '' @ KafkaStatus_String status @ '' state'')),
                   w))
       \<and> (\<not> (Status kafka = KafkaStatus_String KafkaRequestStatusDeprovision
                \<and> status \<noteq> KafkaRequestStatusDeleting)
            \<and> Status kafka \<noteq> KafkaStatus_String status
            \<and> connectionFactory k DbUpdateStatus = None
          \<longrightarrow> UpdateStatus k id' status w
                = (True, None,
                   w\<lparr>rows := map (\<lambda>r. if live r \<and> ID r = id'
                                        then r\<lparr>Status := KafkaStatus_String status,
                                               UpdatedAt := time_Now k\<rparr>
                                        else r) (rows w)\<rparr>)
              \<and> kafka\<lparr>Status := KafkaStatus_String status, UpdatedAt := time_Now k\<rparr>
                  \<in> set (rows (snd (snd (UpdateStatus k id' status w)))))
       \<and> (\<not> (Status kafka = KafkaStatus_String KafkaRequestStatusDeprovision
                \<and> status \<noteq> KafkaRequestStatusDeleting)
            \<and> Status kafka \<noteq> KafkaStatus_String status
            \<and> connectionFactory k DbUpdateStatus \<noteq> None
          \<longrightarrow> UpdateStatus k id' status w
                = (True, Some (NewWithCause ErrorGeneral ''Failed to update kafka status''), w))"
proof -
  note g = GetById_found [OF assms]
  note m = db_First_Inr [OF assms(3)]
  have a: "Status kafka = KafkaStatus_String KafkaRequestStatusDeprovision
            \<and> status \<noteq> KafkaRequestStatusDeleting
          \<longrightarrow> UpdateStatus k id' status w
                = (False, Some (GeneralError ''failed to update status: cluster is deprovisioning''), w)"
    using g by (simp add: UpdateStatus_def)
  have b: "\<not> (Status kafka = KafkaStatus_String KafkaRequestStatusDeprovision
                \<and> status \<noteq> KafkaRequestStatusDeleting)
            \<and> Status kafka = KafkaStatus_String status
          \<longrightarrow> UpdateStatus k id' status w
                = (False,
                   Some (GeneralError (''failed to update status: the cluster '' @ id'
                           @ '' is already in '' @ KafkaStatus_String status @ '' state'')),
                   w)"
    using g by (simp add: UpdateStatus_def)
  have b': "Status kafka = KafkaStatus_String status
          \<longrightarrow> fst (UpdateStatus k id' status w) = False
              \<and> fst (snd (UpdateStatus k id' status w)) \<noteq> None
              \<and> snd (snd (UpdateStatus k id' status w)) = w"
    using g by (simp add: UpdateStatus_def)
  have c: "\<not> (Status kafka = KafkaStatus_String KafkaRequestStatusDeprovision
                \<and> status \<noteq> KafkaRequestStatusDeleting)
            \<and> Status kafka \<noteq> KafkaStatus_String status
            \<and> connectionFactory k DbUpdateStatus = None
          \<longrightarrow> UpdateStatus k id' status w
                = (True, None,
                   w\<lparr>rows := map (\<lambda>r. if live r \<and> ID r = id'
                                        then r\<lparr>Status := KafkaStatus_String status,
                                               UpdatedAt := time_Now k\<rparr>
                                        else r) (rows w)\<rparr>)"
    using g by (simp add: UpdateStatus_def db_Update_where_def)
  have c': "kafka\<lparr>Status := KafkaStatus_String status, UpdatedAt := time_Now k\<rparr>
              \<in> set (map (\<lambda>r. if live r \<and> ID r = id'
                                        then r\<lparr>Status := KafkaStatus_String status,
                                               UpdatedAt := time_Now k\<rparr>
                                        else r) (rows w))"
    using m by (auto simp add: image_iff intro!: bexI [of _ kafka])
  have d: "\<not> (Status kafka = KafkaStatus_String KafkaRequestStatusDeprovision
                \<and> status \<noteq> KafkaRequestStatusDeleting)
            \<and> Status kafka \<noteq> KafkaStatus_String status
            \<and> connectionFactory k DbUpdateStatus \<noteq> None
          \<longrightarrow> UpdateStatus k id' status w
                = (True, Some (NewWithCause ErrorGeneral ''Failed to update kafka status''), w)"
    using g by (auto simp add: UpdateStatus_def)
  from c c' have c'': "\<not> (Status kafka = KafkaStatus_String KafkaRequestStatusDeprovision
                \<and> status \<noteq> KafkaRequestStatusDeleting)
            \<and> Status kafka \<noteq> KafkaStatus_String status
            \<and> connectionFactory k DbUpdateStatus = None
          \<longrightarrow> UpdateStatus k id' status w
                = (True, None,
                   w\<lparr>rows := map (\<lambda>r. if live r \<and> ID r = id'
                                        then r\<lparr>Status := KafkaStatus_String status,
                                               UpdatedAt := time_Now k\<rparr>
                                        else r) (rows w)\<rparr>)
              \<and> kafka\<lparr>Status := KafkaStatus_String status, UpdatedAt := time_Now k\<rparr>
                  \<in> set (rows (snd (snd (UpdateStatus k id' status w))))"
    by simp
  from m a b' b c'' d show ?thesis
    by blast
qed

theorem UpdateStatus_guard_witness:
  "UpdateStatus example_service ''k2'' KafkaRequestStatusReady example_world
     = (False, Some (GeneralError ''failed to update status: cluster is deprovisioning''),
        example_world)
   \<and> UpdateStatus example_service ''k1'' KafkaRequestStatusAccepted example_world
     = (False,
        Some (GeneralError ''failed to update status: the cluster k1 is already in accepted state''),
        example_world)
   \<and> fst (UpdateStatus example_service ''k3'' KafkaRequestStatusAccepted example_world) = True
   \<and> fst (snd (UpdateStatus example_service ''k3'' KafkaRequestStatusAccepted example_world)) = None
   \<and> map Status (rows (snd (snd (UpdateStatus example_service ''k3'' KafkaRequestStatusAccepted
        example_world)))) = [''accepted'', ''deprovision'', ''ready'', ''accepted'']
   \<and> UpdateStatus (failing DbUpdateStatus example_service) ''k3'' KafkaRequestStatusAccepted
        example_world
     = (True, Some (NewWithCause ErrorGeneral ''Failed to update kafka status''), example_world)"
proof -
  have f: "connectionFactory example_service DbFirstById = None"
          "connectionFactory (failing DbUpdateStatus example_service) DbFirstById = None"
          "connectionFactory example_service DbUpdateStatus = None"
          "connectionFactory (failing DbUpdateStatus example_service) DbUpdateStatus \<noteq> None"
    by (simp_all add: example_simps)
  have k1: "db_First (\<lambda>r. ID r = ''k1'') (rows example_world)
              = Inr (example_row ''k1'' ''accepted'' 3240000000000000)"
    by (simp add: db_First_def live_def example_simps)
  have k2: "db_First (\<lambda>r. ID r = ''k2'') (rows example_world)
              = Inr (example_row ''k2'' ''deprovision'' 3240000000000000)"
    by (simp add: db_First_def live_def example_simps)
  have k3: "db_First (\<lambda>r. ID r = ''k3'') (rows example_world)
              = Inr (example_row ''k3'' ''ready'' 3596400000000000)"
    by (simp add: db_First_def live_def example_simps)
  note a = UpdateStatus_guard [OF _ f(1) k2, of KafkaRequestStatusReady]
  note b = UpdateStatus_guard [OF _ f(1) k1, of KafkaRequestStatusAccepted]
  note c = UpdateStatus_guard [OF _ f(1) k3, of KafkaRequestStatusAccepted]
  note d = UpdateStatus_guard [OF _ f(2) k3, of KafkaRequestStatusAccepted]
  from a have a': "UpdateStatus example_service ''k2'' KafkaRequestStatusReady example_world
     = (False, Some (GeneralError ''failed to update status: cluster is deprovisioning''),
        example_world)"
    by (simp add: example_row_def)
  from b have b': "UpdateStatus example_service ''k1'' KafkaRequestStatusAccepted example_world
     = (False,
        Some (GeneralError ''failed to update status: the cluster k1 is already in accepted state''),
        example_world)"
    by (simp add: example_row_def)
  from c f(3) have c': "fst (UpdateStatus example_service ''k3'' KafkaRequestStatusAccepted example_world) = True
      \<and> fst (snd (UpdateStatus example_service ''k3'' KafkaRequestStatusAccepted example_world)) = None
      \<and> map Status (rows (snd (snd (UpdateStatus example_service ''k3'' KafkaRequestStatusAccepted
        example_world)))) = [''accepted'', ''deprovision'', ''ready'', ''accepted'']"
    by (simp add: example_row_def example_world_def live_def)
  from d f(4) have d': "UpdateStatus (failing DbUpdateStatus example_service) ''k3''
        KafkaRequestStatusAccepted example_world
     = (True, Some (NewWithCause ErrorGeneral ''Failed to update kafka status''), example_world)"
    by (simp add: example_row_def)
  from a' b' c' d' show ?thesis by simp
qed

text \<open>
  Claim C2 as stated fails when the store rejects the status update: the record
  \<open>k1\<close> is stored with status Accepted, the new status Ready differs from it, the
  flag is \<open>True\<close>, and yet the table is unchanged.
\<close>

theorem UpdateStatus_write_failure:
  "db_First (\<lambda>r. ID r = ''k1'') (rows example_world)
     = Inr (example_row ''k1'' ''accepted'' 3240000000000000)
   \<and> UpdateStatus (failing DbUpdateStatus example_service) ''k1'' KafkaRequestStatusReady example_world
     = (True, Some (NewWithCause ErrorGeneral ''Failed to update kafka status''), example_world)"
  by (simp add: UpdateStatus_def GetById_def db_First_def live_def example_simps)

subsection \<open>Admission\<close>




text \<open>
  Claim C3. For every admission call with quota enforcement enabled that passes the
  capacity check and so asks the quota authority: if the authority denies the
  reservation, the call returns the "insufficient quota" error; if the call to the
  authority fails, the call returns an error (failed to check quota); in both cases
  no row is persisted, the only request sent out is the quota reservation itself, and
  no DNS or identity-provider request is made.
\<close>

theorem RegisterKafkaJob_quota_gate:
  assumes "EnableQuotaService (kafkaConfig k)"
      and "HasAvailableCapacity k w = (True, None)"
      and "quotaService_ReserveQuota k productId (ClusterID r) (uuid_New k) (Owner r) False ''single''
             = (allowed, reservation, err)"
  shows "(err = None \<and> \<not> allowed \<longrightarrow>
            fst (RegisterKafkaJob k r w) = Some (InsufficientQuotaError ''Insufficient Quota''))
       \<and> (err \<noteq> None \<longrightarrow>
            fst (RegisterKafkaJob k r w)
              = Some (NewWithCause ErrorFailedToCheckQuota ''failed to create kafka request''))
       \<and> (err \<noteq> None \<or> \<not> allowed \<longrightarrow>
            rows (snd (snd (RegisterKafkaJob k r w))) = rows w
            \<and> effects (snd (snd (RegisterKafkaJob k r w)))
                = effects w @ [QuotaReserve productId (ClusterID r) (uuid_New k) (Owner r) False ''single'']
            \<and> filter dns_or_identity_effect (effects (snd (snd (RegisterKafkaJob k r w))))
                = filter dns_or_identity_effect (effects w))"
  using assms
  by (auto simp add: RegisterKafkaJob_def Let_def emit_def)



theorem RegisterKafkaJob_quota_gate_witness:
  "fst (RegisterKafkaJob (with_quota (False, ''r1'', None) example_service) example_request
          example_world)
     = Some (InsufficientQuotaError ''Insufficient Quota'')
   \<and> rows (snd (snd (RegisterKafkaJob (with_quota (False, ''r1'', None) example_service)
          example_request example_world))) = rows example_world
   \<and> effects (snd (snd (RegisterKafkaJob (with_quota (False, ''r1'', None) example_service)
          example_request example_world)))
       = [QuotaReserve ''RHOSAKTrial'' [] ''uuid-1'' ''u1'' False ''single'']
   \<and> fst (RegisterKafkaJob (with_quota (False, [], Some ''timeout'') example_service)
          example_request example_world)
     = Some (NewWithCause ErrorFailedToCheckQuota ''failed to create kafka request'')
   \<and> rows (snd (snd (RegisterKafkaJob (with_quota (False, [], Some ''timeout'') example_service)
          example_request example_world))) = rows example_world"
proof -
  have e: "EnableQuotaService (kafkaConfig (with_quota (False, ''r1'', None) example_service))"
          "EnableQuotaService (kafkaConfig (with_quota (False, [], Some ''timeout'') example_service))"
    by (simp_all add: example_simps2)
  have h: "HasAvailableCapacity (with_quota (False, ''r1'', None) example_service) example_world
             = (True, None)"
          "HasAvailableCapacity (with_quota (False, [], Some ''timeout'') example_service)
             example_world = (True, None)"
    by (simp_all add: HasAvailableCapacity_def db_Count_def live_def example_simps2)
  have q: "quotaService_ReserveQuota (with_quota (False, ''r1'', None) example_service) productId
             (ClusterID example_request)
             (uuid_New (with_quota (False, ''r1'', None) example_service))
             (Owner example_request) False ''single'' = (False, ''r1'', None)"
          "quotaService_ReserveQuota (with_quota (False, [], Some ''timeout'') example_service)
             productId (ClusterID example_request)
             (uuid_New (with_quota (False, [], Some ''timeout'') example_service))
             (Owner example_request) False ''single'' = (False, [], Some ''timeout'')"
    by (simp_all add: example_simps2)
  from RegisterKafkaJob_quota_gate [OF e(1) h(1) q(1)]
       RegisterKafkaJob_quota_gate [OF e(2) h(2) q(2)]
  show ?thesis
    by (simp add: example_simps2 productId_def)
qed

subsection \<open>Field-scoped update and preparation\<close>

lemma ChangeKafkaCNAMErecords_rows:
  "rows (snd (ChangeKafkaCNAMErecords k r dns a w)) = rows w"
  by (simp add: ChangeKafkaCNAMErecords_def Let_def emit_def split: option.splits)




lemma deletion_status_iff:
  "s \<in> set kafkaDeletionStatuses \<longleftrightarrow>
     s = KafkaStatus_String KafkaRequestStatusDeprovision
     \<or> s = KafkaStatus_String KafkaRequestStatusDeleting"
  by (auto simp add: kafkaDeletionStatuses_def)



lemma Prepare_unfold:
  assumes rep: "replaceHostSpecialChar k (buildTruncateKafkaIdentifier k r) = (ident, replaceErr)"
      and dns0: "clusterService_GetClusterDNS k (ClusterID r) = (dns0, err)"
      and dns: "dns = strings_Replace_first dns0 (DefaultIngressDnsNamePrefix k)
                        (ManagedKafkaIngressDnsNamePrefix k)"
      and r2: "r2 = r\<lparr>BootstrapServerHost :=
                       ident @ ''.'' @ (if EnableKafkaExternalCertificate (kafkaConfig k)
                                        then KafkaDomainName (kafkaConfig k) else dns)\<rparr>"
      and cn: "(if EnableKafkaExternalCertificate (kafkaConfig k)
                then ChangeKafkaCNAMErecords k r2 dns ''CREATE'' w else (None, w)) = (cnameErr, w1)"
      and sso: "(if EnableAuthenticationOnKafka (keycloakService_GetConfig k)
                 then keycloakService_RegisterKafkaClientInSSO k
                        (BuildKeycloakClientNameIdentifier k (ID r)) (OrganisationId r)
                 else (SsoClientSecret r, None)) = (secret, ssoErr)"
      and r3: "r3 = (if EnableAuthenticationOnKafka (keycloakService_GetConfig k)
                     then r2\<lparr>SsoClientID := BuildKeycloakClientNameIdentifier k (ID r),
                             SsoClientSecret := secret\<rparr>
                     else r2)"
      and w2: "w2 = (if EnableAuthenticationOnKafka (keycloakService_GetConfig k)
                     then emit (SsoRegister (BuildKeycloakClientNameIdentifier k (ID r))
                                  (OrganisationId r)) w1
                     else w1)"
      and upd: "Update k (updatedKafkaRequest r3) w2 = (updErr, w3)"
  shows "PrepareKafkaRequest k r w =
           (if replaceErr \<noteq> None then
              (Some (NewWithCause ErrorGeneral ''generated host is not valid''), r, w)
            else if err \<noteq> None then
              (Some (NewWithCause ErrorGeneral ''error retrieving cluster DNS''), r, w)
            else if cnameErr \<noteq> None then (cnameErr, r2, w1)
            else
              (case ssoErr of
                 Some e \<Rightarrow>
                   (Some (FailedToCreateSSOClient
                            (''failed to create sso client '' @ SsoClientID r3 @ '':'' @ e)),
                    r3, w2)
               | None \<Rightarrow>
                   if updErr \<noteq> None then
                     (Some (NewWithCause ErrorGeneral ''failed to update kafka request''), r3, w3)
                   else (None, r3, w3)))"
proof (cases "EnableKafkaExternalCertificate (kafkaConfig k)")
  case ext: True
  show ?thesis
  proof (cases "EnableAuthenticationOnKafka (keycloakService_GetConfig k)")
    case True
    with ext rep dns0 dns r2 cn sso r3 w2 upd show ?thesis
      by (auto simp add: PrepareKafkaRequest_def updatedKafkaRequest_def Let_def split: option.splits)
  next
    case False
    with ext rep dns0 dns r2 cn sso r3 w2 upd show ?thesis
      by (auto simp add: PrepareKafkaRequest_def updatedKafkaRequest_def Let_def split: option.splits)
  qed
next
  case ext: False
  show ?thesis
  proof (cases "EnableAuthenticationOnKafka (keycloakService_GetConfig k)")
    case True
    with ext rep dns0 dns r2 cn sso r3 w2 upd show ?thesis
      by (auto simp add: PrepareKafkaRequest_def updatedKafkaRequest_def Let_def split: option.splits)
  next
    case False
    with ext rep dns0 dns r2 cn sso r3 w2 upd show ?thesis
      by (auto simp add: PrepareKafkaRequest_def updatedKafkaRequest_def Let_def split: option.splits)
  qed
qed

lemma ChangeKafkaCNAMErecords_fst:
  "fst (ChangeKafkaCNAMErecords k r dns a w) = fst (ChangeKafkaCNAMErecords k r dns a w0)"
  by (simp add: ChangeKafkaCNAMErecords_def Let_def split: option.splits)


text \<open>The intermediate values of a preparation, and its result in terms of them.\<close>

lemma Prepare_cases:
  obtains ident replaceErr dns0 err dns r2 cnameErr w1 secret ssoErr r3 w2 updErr w3
  where "replaceHostSpecialChar k (buildTruncateKafkaIdentifier k r) = (ident, replaceErr)"
    and "clusterService_GetClusterDNS k (ClusterID r) = (dns0, err)"
    and "dns = strings_Replace_first dns0 (DefaultIngressDnsNamePrefix k)
                 (ManagedKafkaIngressDnsNamePrefix k)"
    and "r2 = r\<lparr>BootstrapServerHost :=
                  ident @ ''.'' @ (if EnableKafkaExternalCertificate (kafkaConfig k)
                                   then KafkaDomainName (kafkaConfig k) else dns)\<rparr>"
    and "(if EnableKafkaExternalCertificate (kafkaConfig k)
          then ChangeKafkaCNAMErecords k r2 dns ''CREATE'' w else (None, w)) = (cnameErr, w1)"
    and "(if EnableAuthenticationOnKafka (keycloakService_GetConfig k)
          then keycloakService_RegisterKafkaClientInSSO k
                 (BuildKeycloakClientNameIdentifier k (ID r)) (OrganisationId r)
          else (SsoClientSecret r, None)) = (secret, ssoErr)"
    and "r3 = (if EnableAuthenticationOnKafka (keycloakService_GetConfig k)
               then r2\<lparr>SsoClientID := BuildKeycloakClientNameIdentifier k (ID r),
                       SsoClientSecret := secret\<rparr>
               else r2)"
    and "w2 = (if EnableAuthenticationOnKafka (keycloakService_GetConfig k)
               then emit (SsoRegister (BuildKeycloakClientNameIdentifier k (ID r))
                            (OrganisationId r)) w1
               else w1)"
    and "Update k (updatedKafkaRequest r3) w2 = (updErr, w3)"
    and "PrepareKafkaRequest k r w =
           (if replaceErr \<noteq> None then
              (Some (NewWithCause ErrorGeneral ''generated host is not valid''), r, w)
            else if err \<noteq> None then
              (Some (NewWithCause ErrorGeneral ''error retrieving cluster DNS''), r, w)
            else if cnameErr \<noteq> None then (cnameErr, r2, w1)
            else
              (case ssoErr of
                 Some e \<Rightarrow>
                   (Some (FailedToCreateSSOClient
                            (''failed to create sso client '' @ SsoClientID r3 @ '':'' @ e)),
                    r3, w2)
               | None \<Rightarrow>
                   if updErr \<noteq> None then
                     (Some (NewWithCause ErrorGeneral ''failed to update kafka request''), r3, w3)
                   else (None, r3, w3)))"
proof -
  obtain ident replaceErr where rep:
    "replaceHostSpecialChar k (buildTruncateKafkaIdentifier k r) = (ident, replaceErr)"
    by (cases "replaceHostSpecialChar k (buildTruncateKafkaIdentifier k r)")
  obtain dns0 err where dns0: "clusterService_GetClusterDNS k (ClusterID r) = (dns0, err)"
    by (cases "clusterService_GetClusterDNS k (ClusterID r)")
  define dns where "dns = strings_Replace_first dns0 (DefaultIngressDnsNamePrefix k)
                        (ManagedKafkaIngressDnsNamePrefix k)"
  define r2 where "r2 = r\<lparr>BootstrapServerHost :=
                       ident @ ''.'' @ (if EnableKafkaExternalCertificate (kafkaConfig k)
                                        then KafkaDomainName (kafkaConfig k) else dns)\<rparr>"
  obtain cnameErr w1 where cn:
    "(if EnableKafkaExternalCertificate (kafkaConfig k)
      then ChangeKafkaCNAMErecords k r2 dns ''CREATE'' w else (None, w)) = (cnameErr, w1)"
    by (cases "(if EnableKafkaExternalCertificate (kafkaConfig k)
      then ChangeKafkaCNAMErecords k r2 dns ''CREATE'' w else (None, w))")
  obtain secret ssoErr where sso:
    "(if EnableAuthenticationOnKafka (keycloakService_GetConfig k)
      then keycloakService_RegisterKafkaClientInSSO k
             (BuildKeycloakClientNameIdentifier k (ID r)) (OrganisationId r)
      else (SsoClientSecret r, None)) = (secret, ssoErr)"
    by (cases "(if EnableAuthenticationOnKafka (keycloakService_GetConfig k)
      then keycloakService_RegisterKafkaClientInSSO k
             (BuildKeycloakClientNameIdentifier k (ID r)) (OrganisationId r)
      else (SsoClientSecret r, None))")
  define r3 where "r3 = (if EnableAuthenticationOnKafka (keycloakService_GetConfig k)
                     then r2\<lparr>SsoClientID := BuildKeycloakClientNameIdentifier k (ID r),
                             SsoClientSecret := secret\<rparr>
                     else r2)"
  define w2 where "w2 = (if EnableAuthenticationOnKafka (keycloakService_GetConfig k)
                     then emit (SsoRegister (BuildKeycloakClientNameIdentifier k (ID r))
                                  (OrganisationId r)) w1
                     else w1)"
  obtain updErr w3 where upd: "Update k (updatedKafkaRequest r3) w2 = (updErr, w3)"
    by (cases "Update k (updatedKafkaRequest r3) w2")
  note unf = Prepare_unfold [OF rep dns0 dns_def r2_def cn sso r3_def w2_def upd]
  from rep dns0 dns_def r2_def cn sso r3_def w2_def upd unf show thesis
    by (rule that)
qed










subsection \<open>Failures of the external steps\<close>

lemma ChangeKafkaCNAMErecords_result:
  "fst (ChangeKafkaCNAMErecords k r dns a w) =
     (if aws_NewClient k (Region r) \<noteq> None
      then Some (NewWithCause ErrorGeneral ''Unable to create aws client'')
      else if aws_ChangeResourceRecordSets k (KafkaDomainName (kafkaConfig k))
                (buildKafkaClusterCNAMESRecordBatch (BootstrapServerHost r) dns a (kafkaConfig k))
              \<noteq> None
      then Some (NewWithCause ErrorGeneral ''Unable to create domain record sets'')
      else None)"
  by (auto simp add: ChangeKafkaCNAMErecords_def Let_def split: option.splits)

lemma Prepare_sso_failure:
  assumes rep: "snd (replaceHostSpecialChar k (buildTruncateKafkaIdentifier k r)) = None"
      and dns: "snd (clusterService_GetClusterDNS k (ClusterID r)) = None"
      and cn: "EnableKafkaExternalCertificate (kafkaConfig k) \<longrightarrow>
                 aws_NewClient k (Region r) = None
                 \<and> aws_ChangeResourceRecordSets k (KafkaDomainName (kafkaConfig k))
                      (buildKafkaClusterCNAMESRecordBatch
                         (fst (replaceHostSpecialChar k (buildTruncateKafkaIdentifier k r)) @ ''.''
                            @ KafkaDomainName (kafkaConfig k))
                         (strings_Replace_first (fst (clusterService_GetClusterDNS k (ClusterID r)))
                            (DefaultIngressDnsNamePrefix k) (ManagedKafkaIngressDnsNamePrefix k))
                         ''CREATE'' (kafkaConfig k)) = None"
      and auth: "EnableAuthenticationOnKafka (keycloakService_GetConfig k)"
      and sso: "snd (keycloakService_RegisterKafkaClientInSSO k
                       (BuildKeycloakClientNameIdentifier k (ID r)) (OrganisationId r)) = Some e"
  shows "fst (PrepareKafkaRequest k r w)
           = Some (FailedToCreateSSOClient
                     (''failed to create sso client '' @ BuildKeycloakClientNameIdentifier k (ID r)
                        @ '':'' @ e))
       \<and> rows (snd (snd (PrepareKafkaRequest k r w))) = rows w"
proof -
  obtain ident replaceErr dns0 err dns r2 cnameErr w1 secret ssoErr r3 w2 updErr w3
    where rep': "replaceHostSpecialChar k (buildTruncateKafkaIdentifier k r) = (ident, replaceErr)"
    and dns0: "clusterService_GetClusterDNS k (ClusterID r) = (dns0, err)"
    and dns': "dns = strings_Replace_first dns0 (DefaultIngressDnsNamePrefix k)
                 (ManagedKafkaIngressDnsNamePrefix k)"
    and r2: "r2 = r\<lparr>BootstrapServerHost :=
                  ident @ ''.'' @ (if EnableKafkaExternalCertificate (kafkaConfig k)
                                   then KafkaDomainName (kafkaConfig k) else dns)\<rparr>"
    and cn': "(if EnableKafkaExternalCertificate (kafkaConfig k)
          then ChangeKafkaCNAMErecords k r2 dns ''CREATE'' w else (None, w)) = (cnameErr, w1)"
    and sso': "(if EnableAuthenticationOnKafka (keycloakService_GetConfig k)
          then keycloakService_RegisterKafkaClientInSSO k
                 (BuildKeycloakClientNameIdentifier k (ID r)) (OrganisationId r)
          else (SsoClientSecret r, None)) = (secret, ssoErr)"
    and r3: "r3 = (if EnableAuthenticationOnKafka (keycloakService_GetConfig k)
               then r2\<lparr>SsoClientID := BuildKeycloakClientNameIdentifier k (ID r),
                       SsoClientSecret := secret\<rparr>
               else r2)"
    and w2: "w2 = (if EnableAuthenticationOnKafka (keycloakService_GetConfig k)
               then emit (SsoRegister (BuildKeycloakClientNameIdentifier k (ID r))
                            (OrganisationId r)) w1
               else w1)"
    and upd: "Update k (updatedKafkaRequest r3) w2 = (updErr, w3)"
    and unf: "PrepareKafkaRequest k r w =
           (if replaceErr \<noteq> None then
              (Some (NewWithCause ErrorGeneral ''generated host is not valid''), r, w)
            else if err \<noteq> None then
              (Some (NewWithCause ErrorGeneral ''error retrieving cluster DNS''), r, w)
            else if cnameErr \<noteq> None then (cnameErr, r2, w1)
            else
              (case ssoErr of
                 Some e \<Rightarrow>
                   (Some (FailedToCreateSSOClient
                            (''failed to create sso client '' @ SsoClientID r3 @ '':'' @ e)),
                    r3, w2)
               | None \<Rightarrow>
                   if updErr \<noteq> None then
                     (Some (NewWithCause ErrorGeneral ''failed to update kafka request''), r3, w3)
                   else (None, r3, w3)))"
    by (rule Prepare_cases [of k r w])
  from rep rep' have a: "replaceErr = None" "ident = fst (replaceHostSpecialChar k
      (buildTruncateKafkaIdentifier k r))"
    by simp_all
  from dns dns0 have b: "err = None" "dns0 = fst (clusterService_GetClusterDNS k (ClusterID r))"
    by simp_all
  have c: "cnameErr = None"
  proof (cases "EnableKafkaExternalCertificate (kafkaConfig k)")
    case True
    with cn' have "cnameErr = fst (ChangeKafkaCNAMErecords k r2 dns ''CREATE'' w)"
      by simp
    also have "\<dots> = None"
      using cn True by (simp add: ChangeKafkaCNAMErecords_result r2 dns' a(2) b(2))
    finally show ?thesis .
  next
    case False
    with cn' show ?thesis by simp
  qed
  from sso sso' auth have d: "ssoErr = Some e"
    by simp
  have w1: "rows w1 = rows w"
  proof (cases "EnableKafkaExternalCertificate (kafkaConfig k)")
    case True
    with cn' have "w1 = snd (ChangeKafkaCNAMErecords k r2 dns ''CREATE'' w)"
      by simp
    then show ?thesis
      by (simp only: ChangeKafkaCNAMErecords_rows)
  next
    case False
    with cn' show ?thesis by simp
  qed
  have id3: "SsoClientID r3 = BuildKeycloakClientNameIdentifier k (ID r)"
    using auth by (simp add: r3)
  from unf a(1) b(1) c d have "PrepareKafkaRequest k r w
      = (Some (FailedToCreateSSOClient
                 (''failed to create sso client '' @ SsoClientID r3 @ '':'' @ e)), r3, w2)"
    by simp
  with id3 w1 show ?thesis
    by (simp add: w2 emit_def)
qed

lemma Delete_sso_failure:
  assumes "ClusterID r \<noteq> []" "EnableAuthenticationOnKafka (keycloakService_GetConfig k)"
      and "keycloakService_DeRegisterClientInSSO k (BuildKeycloakClientNameIdentifier k (ID r))
             \<noteq> None"
  shows "fst (Delete k r w) = Some (NewWithCause ErrorGeneral ''error deleting sso client'')
       \<and> rows (snd (Delete k r w)) = rows w"
  using assms by (simp add: Delete_def Let_def emit_def)

lemma Delete_dns_failure:
  assumes "ClusterID r \<noteq> []"
      and "EnableAuthenticationOnKafka (keycloakService_GetConfig k) \<longrightarrow>
             keycloakService_DeRegisterClientInSSO k (BuildKeycloakClientNameIdentifier k (ID r))
               = None"
      and "EnableKafkaExternalCertificate (kafkaConfig k)"
  shows "(snd (clusterService_GetClusterDNS k (ClusterID r)) \<noteq> None \<longrightarrow>
            fst (Delete k r w) = Some (NewWithCause ErrorGeneral ''error retrieving cluster DNS'')
            \<and> rows (snd (Delete k r w)) = rows w)
       \<and> (snd (clusterService_GetClusterDNS k (ClusterID r)) = None
            \<and> fst (ChangeKafkaCNAMErecords k r
                     (strings_Replace_first (fst (clusterService_GetClusterDNS k (ClusterID r)))
                        (DefaultIngressDnsNamePrefix k) (ManagedKafkaIngressDnsNamePrefix k))
                     ''DELETE'' w) \<noteq> None
          \<longrightarrow>
            fst (Delete k r w)
              = fst (ChangeKafkaCNAMErecords k r
                       (strings_Replace_first (fst (clusterService_GetClusterDNS k (ClusterID r)))
                          (DefaultIngressDnsNamePrefix k) (ManagedKafkaIngressDnsNamePrefix k))
                       ''DELETE'' w)
            \<and> rows (snd (Delete k r w)) = rows w)"
proof -
  let ?dns = "strings_Replace_first (fst (clusterService_GetClusterDNS k (ClusterID r)))
                        (DefaultIngressDnsNamePrefix k) (ManagedKafkaIngressDnsNamePrefix k)"
  let ?w1 = "if EnableAuthenticationOnKafka (keycloakService_GetConfig k)
             then emit (SsoDeRegister (BuildKeycloakClientNameIdentifier k (ID r))) w else w"
  obtain dns0 dnsErr where g: "clusterService_GetClusterDNS k (ClusterID r) = (dns0, dnsErr)"
    by (cases "clusterService_GetClusterDNS k (ClusterID r)")
  obtain cnameErr w2 where c: "ChangeKafkaCNAMErecords k r ?dns ''DELETE'' ?w1 = (cnameErr, w2)"
    by (cases "ChangeKafkaCNAMErecords k r ?dns ''DELETE'' ?w1")
  have ce: "cnameErr = fst (ChangeKafkaCNAMErecords k r ?dns ''DELETE'' w)"
    using c ChangeKafkaCNAMErecords_fst [of k r ?dns "''DELETE''" ?w1 w] by simp
  have w2: "rows w2 = rows w"
    using c ChangeKafkaCNAMErecords_rows [of k r ?dns "''DELETE''" ?w1] by (simp add: emit_def)
  have A: "dnsErr \<noteq> None \<longrightarrow>
            fst (Delete k r w) = Some (NewWithCause ErrorGeneral ''error retrieving cluster DNS'')
            \<and> rows (snd (Delete k r w)) = rows w"
    using assms g by (auto simp add: Delete_def Let_def emit_def)
  have B: "dnsErr = None \<and> cnameErr \<noteq> None \<longrightarrow>
            fst (Delete k r w) = cnameErr \<and> rows (snd (Delete k r w)) = rows w"
    using assms g c w2 by (auto simp add: Delete_def Let_def)
  from A B g ce show ?thesis
    by simp
qed

text \<open>
  Claim C5. If the identity client creation step of \<open>PrepareKafkaRequest\<close> fails
  (the steps before it passed, authentication is enabled, and the identity provider
  answers with an error), the preparation returns the "failed to create SSO client"
  error and the table is unchanged: no update is performed and no status advances. If
  the external cleanup of \<open>Delete\<close> fails for a request with a cluster id (the
  deletion of the identity client when authentication is enabled; or, once that has
  passed, with external certificates enabled, the lookup of the cluster DNS, the
  creation of the DNS client or the submission of the DELETE batch), \<open>Delete\<close> returns
  an error and the table is unchanged: the row is not soft-deleted.
\<close>

theorem cleanup_failure_keeps_row:
  "(snd (replaceHostSpecialChar k (buildTruncateKafkaIdentifier k r)) = None
      \<and> snd (clusterService_GetClusterDNS k (ClusterID r)) = None
      \<and> (EnableKafkaExternalCertificate (kafkaConfig k) \<longrightarrow>
            aws_NewClient k (Region r) = None
            \<and> aws_ChangeResourceRecordSets k (KafkaDomainName (kafkaConfig k))
                 (buildKafkaClusterCNAMESRecordBatch
                    (fst (replaceHostSpecialChar k (buildTruncateKafkaIdentifier k r)) @ ''.''
                       @ KafkaDomainName (kafkaConfig k))
                    (strings_Replace_first (fst (clusterService_GetClusterDNS k (ClusterID r)))
                       (DefaultIngressDnsNamePrefix k) (ManagedKafkaIngressDnsNamePrefix k))
                    ''CREATE'' (kafkaConfig k)) = None)
      \<and> EnableAuthenticationOnKafka (keycloakService_GetConfig k)
      \<and> snd (keycloakService_RegisterKafkaClientInSSO k
                (BuildKeycloakClientNameIdentifier k (ID r)) (OrganisationId r)) = Some e
    \<longrightarrow>
      fst (PrepareKafkaRequest k r w)
        = Some (FailedToCreateSSOClient
                  (''failed to create sso client '' @ BuildKeycloakClientNameIdentifier k (ID r)
                     @ '':'' @ e))
      \<and> rows (snd (snd (PrepareKafkaRequest k r w))) = rows w)
   \<and> (ClusterID r \<noteq> []
        \<and> EnableAuthenticationOnKafka (keycloakService_GetConfig k)
        \<and> keycloakService_DeRegisterClientInSSO k (BuildKeycloakClientNameIdentifier k (ID r))
             \<noteq> None
      \<longrightarrow>
        fst (Delete k r w) = Some (NewWithCause ErrorGeneral ''error deleting sso client'')
        \<and> rows (snd (Delete k r w)) = rows w)
   \<and> (ClusterID r \<noteq> []
        \<and> (EnableAuthenticationOnKafka (keycloakService_GetConfig k) \<longrightarrow>
              keycloakService_DeRegisterClientInSSO k (BuildKeycloakClientNameIdentifier k (ID r))
                = None)
        \<and> EnableKafkaExternalCertificate (kafkaConfig k)
      \<longrightarrow>
        (snd (clusterService_GetClusterDNS k (ClusterID r)) \<noteq> None \<longrightarrow>
           fst (Delete k r w) = Some (NewWithCause ErrorGeneral ''error retrieving cluster DNS'')
           \<and> rows (snd (Delete k r w)) = rows w)
        \<and> (snd (clusterService_GetClusterDNS k (ClusterID r)) = None
             \<and> aws_NewClient k (Region r) \<noteq> None
           \<longrightarrow>
             fst (Delete k r w) = Some (NewWithCause ErrorGeneral ''Unable to create aws client'')
             \<and> rows (snd (Delete k r w)) = rows w)
        \<and> (snd (clusterService_GetClusterDNS k (ClusterID r)) = None
             \<and> aws_NewClient k (Region r) = None
             \<and> aws_ChangeResourceRecordSets k (KafkaDomainName (kafkaConfig k))
                  (buildKafkaClusterCNAMESRecordBatch (BootstrapServerHost r)
                     (strings_Replace_first (fst (clusterService_GetClusterDNS k (ClusterID r)))
                        (DefaultIngressDnsNamePrefix k) (ManagedKafkaIngressDnsNamePrefix k))
                     ''DELETE'' (kafkaConfig k)) \<noteq> None
           \<longrightarrow>
             fst (Delete k r w)
               = Some (NewWithCause ErrorGeneral ''Unable to create domain record sets'')
             \<and> rows (snd (Delete k r w)) = rows w))"
proof (intro conjI impI; (elim conjE)?)
  assume "snd (replaceHostSpecialChar k (buildTruncateKafkaIdentifier k r)) = None"
     "snd (clusterService_GetClusterDNS k (ClusterID r)) = None"
     "EnableKafkaExternalCertificate (kafkaConfig k) \<longrightarrow>
            aws_NewClient k (Region r) = None
            \<and> aws_ChangeResourceRecordSets k (KafkaDomainName (kafkaConfig k))
                 (buildKafkaClusterCNAMESRecordBatch
                    (fst (replaceHostSpecialChar k (buildTruncateKafkaIdentifier k r)) @ ''.''
                       @ KafkaDomainName (kafkaConfig k))
                    (strings_Replace_first (fst (clusterService_GetClusterDNS k (ClusterID r)))
                       (DefaultIngressDnsNamePrefix k) (ManagedKafkaIngressDnsNamePrefix k))
                    ''CREATE'' (kafkaConfig k)) = None"
     "EnableAuthenticationOnKafka (keycloakService_GetConfig k)"
     "snd (keycloakService_RegisterKafkaClientInSSO k
                (BuildKeycloakClientNameIdentifier k (ID r)) (OrganisationId r)) = Some e"
  note p = Prepare_sso_failure [OF this, of w]
  from p show "fst (PrepareKafkaRequest k r w)
        = Some (FailedToCreateSSOClient
                  (''failed to create sso client '' @ BuildKeycloakClientNameIdentifier k (ID r)
                     @ '':'' @ e))" ..
  from p show "rows (snd (snd (PrepareKafkaRequest k r w))) = rows w" ..
next
  assume "ClusterID r \<noteq> []" "EnableAuthenticationOnKafka (keycloakService_GetConfig k)"
     "keycloakService_DeRegisterClientInSSO k (BuildKeycloakClientNameIdentifier k (ID r)) \<noteq> None"
  note d = Delete_sso_failure [OF this, of w]
  from d show "fst (Delete k r w) = Some (NewWithCause ErrorGeneral ''error deleting sso client'')" ..
  from d show "rows (snd (Delete k r w)) = rows w" ..
next
  assume h: "ClusterID r \<noteq> []"
     "EnableAuthenticationOnKafka (keycloakService_GetConfig k) \<longrightarrow>
              keycloakService_DeRegisterClientInSSO k (BuildKeycloakClientNameIdentifier k (ID r))
                = None"
     "EnableKafkaExternalCertificate (kafkaConfig k)"
  note d = Delete_dns_failure [OF h, of w]
  {
    assume "snd (clusterService_GetClusterDNS k (ClusterID r)) \<noteq> None"
    with d show "fst (Delete k r w) = Some (NewWithCause ErrorGeneral ''error retrieving cluster DNS'')"
      and "rows (snd (Delete k r w)) = rows w"
      by simp_all
  }
  {
    assume "snd (clusterService_GetClusterDNS k (ClusterID r)) = None"
       "aws_NewClient k (Region r) \<noteq> None"
    with d show "fst (Delete k r w) = Some (NewWithCause ErrorGeneral ''Unable to create aws client'')"
      and "rows (snd (Delete k r w)) = rows w"
      by (simp_all add: ChangeKafkaCNAMErecords_result)
  }
  {
    assume "snd (clusterService_GetClusterDNS k (ClusterID r)) = None"
       "aws_NewClient k (Region r) = None"
       "aws_ChangeResourceRecordSets k (KafkaDomainName (kafkaConfig k))
                  (buildKafkaClusterCNAMESRecordBatch (BootstrapServerHost r)
                     (strings_Replace_first (fst (clusterService_GetClusterDNS k (ClusterID r)))
                        (DefaultIngressDnsNamePrefix k) (ManagedKafkaIngressDnsNamePrefix k))
                     ''DELETE'' (kafkaConfig k)) \<noteq> None"
    with d show "fst (Delete k r w)
               = Some (NewWithCause ErrorGeneral ''Unable to create domain record sets'')"
      and "rows (snd (Delete k r w)) = rows w"
      by (simp_all add: ChangeKafkaCNAMErecords_result)
  }
qed

theorem cleanup_failure_keeps_row_witness:
  "fst (PrepareKafkaRequest (with_authentication ([], Some ''unavailable'') example_service)
          (example_row ''k1'' ''accepted'' 3240000000000000) example_world)
     = Some (FailedToCreateSSOClient ''failed to create sso client kafka-k1:unavailable'')
   \<and> rows (snd (snd (PrepareKafkaRequest (with_authentication ([], Some ''unavailable'')
          example_service) (example_row ''k1'' ''accepted'' 3240000000000000) example_world)))
       = rows example_world
   \<and> fst (Delete (with_deregister_failure example_service)
          (example_row ''k2'' ''deprovision'' 3240000000000000) example_world)
       = Some (NewWithCause ErrorGeneral ''error deleting sso client'')
   \<and> rows (snd (Delete (with_deregister_failure example_service)
          (example_row ''k2'' ''deprovision'' 3240000000000000) example_world))
       = rows example_world
   \<and> fst (Delete (with_dns_failure example_service)
          (example_row ''k2'' ''deprovision'' 3240000000000000) example_world)
       = Some (NewWithCause ErrorGeneral ''Unable to create domain record sets'')
   \<and> rows (snd (Delete (with_dns_failure example_service)
          (example_row ''k2'' ''deprovision'' 3240000000000000) example_world))
       = rows example_world"
proof -
  let ?ka = "with_authentication ([], Some ''unavailable'') example_service"
  let ?kd = "with_deregister_failure example_service"
  let ?kn = "with_dns_failure example_service"
  let ?r1 = "example_row ''k1'' ''accepted'' 3240000000000000"
  let ?r2 = "example_row ''k2'' ''deprovision'' 3240000000000000"
  have a: "snd (replaceHostSpecialChar ?ka (buildTruncateKafkaIdentifier ?ka ?r1)) = None"
          "snd (clusterService_GetClusterDNS ?ka (ClusterID ?r1)) = None"
          "\<not> EnableKafkaExternalCertificate (kafkaConfig ?ka)"
          "EnableAuthenticationOnKafka (keycloakService_GetConfig ?ka)"
          "snd (keycloakService_RegisterKafkaClientInSSO ?ka
                  (BuildKeycloakClientNameIdentifier ?ka (ID ?r1)) (OrganisationId ?r1))
             = Some ''unavailable''"
          "BuildKeycloakClientNameIdentifier ?ka (ID ?r1) = ''kafka-k1''"
    by (simp_all add: example_simps4)
  have d: "ClusterID ?r2 \<noteq> []"
          "EnableAuthenticationOnKafka (keycloakService_GetConfig ?kd)"
          "keycloakService_DeRegisterClientInSSO ?kd (BuildKeycloakClientNameIdentifier ?kd (ID ?r2))
             \<noteq> None"
    by (simp_all add: example_simps4)
  have n: "\<not> EnableAuthenticationOnKafka (keycloakService_GetConfig ?kn)"
          "EnableKafkaExternalCertificate (kafkaConfig ?kn)"
          "snd (clusterService_GetClusterDNS ?kn (ClusterID ?r2)) = None"
          "aws_NewClient ?kn (Region ?r2) = None"
          "aws_ChangeResourceRecordSets ?kn (KafkaDomainName (kafkaConfig ?kn))
             (buildKafkaClusterCNAMESRecordBatch (BootstrapServerHost ?r2)
                (strings_Replace_first (fst (clusterService_GetClusterDNS ?kn (ClusterID ?r2)))
                   (DefaultIngressDnsNamePrefix ?kn) (ManagedKafkaIngressDnsNamePrefix ?kn))
                ''DELETE'' (kafkaConfig ?kn)) \<noteq> None"
    by (simp_all add: example_simps4)
  from cleanup_failure_keeps_row [of ?ka ?r1 "''unavailable''" example_world] a
  have A: "fst (PrepareKafkaRequest ?ka ?r1 example_world)
             = Some (FailedToCreateSSOClient ''failed to create sso client kafka-k1:unavailable'')
     \<and> rows (snd (snd (PrepareKafkaRequest ?ka ?r1 example_world))) = rows example_world"
    by simp
  from cleanup_failure_keeps_row [of ?kd ?r2 e example_world] d
  have B: "fst (Delete ?kd ?r2 example_world)
             = Some (NewWithCause ErrorGeneral ''error deleting sso client'')
     \<and> rows (snd (Delete ?kd ?r2 example_world)) = rows example_world"
    by blast
  from cleanup_failure_keeps_row [of ?kn ?r2 e example_world] d(1) n
  have C: "fst (Delete ?kn ?r2 example_world)
             = Some (NewWithCause ErrorGeneral ''Unable to create domain record sets'')
     \<and> rows (snd (Delete ?kn ?r2 example_world)) = rows example_world"
    by blast
  from A B C show ?thesis by simp
qed

subsection \<open>Deprovision jobs and their metrics\<close>





subsection \<open>Expiry\<close>

lemma sint_word_of_int_64:
  assumes "- (2 ^ 63) \<le> x" "x < 2 ^ 63"
  shows "sint (word_of_int x :: 64 word) = x"
  using assms by (simp add: sint_sbintrunc' signed_take_bit_int_eq_self)

lemma cutoff_in_range:
  assumes "- 2562047 \<le> sint a" "sint a \<le> 2562047"
  shows "sint ((- 1) * a * time_Hour :: 64 word) = - (sint a * 3600000000000)"
proof -
  define x where "x = - (sint a * 3600000000000)"
  have r: "- (2 ^ 63) \<le> x" "x < 2 ^ 63"
    using assms by (simp_all add: x_def)
  have "(- 1) * a * time_Hour = (word_of_int x :: 64 word)"
    by (simp add: x_def time_Hour_def)
  then have "sint ((- 1) * a * time_Hour) = sint (word_of_int x :: 64 word)"
    by (rule arg_cong)
  also have "\<dots> = x"
    by (rule sint_word_of_int_64 [OF r])
  finally show ?thesis
    by (simp only: x_def)
qed

lemma expiryCutoff_in_range:
  assumes "- 2562047 \<le> sint a" "sint a \<le> 2562047"
  shows "expiryCutoff k a = time_Now k - sint a * 3600000000000"
  using cutoff_in_range [OF assms] by (simp add: expiryCutoff_def)

lemma countDeprovisioned_rows:
  "rows (countDeprovisioned c n w) = rows w"
proof (induction c n w rule: countDeprovisioned.induct)
  case (1 counter rowsAffected w)
  then show ?case
    by (subst countDeprovisioned.simps) (simp add: emit_def)
qed

lemma countDeprovisioned_effects:
  "effects (countDeprovisioned c n w)
     = effects w @ concat (replicate (nat (n - c))
         [IncreaseKafkaTotalOperationsCountMetric KafkaOperationDeprovision,
          IncreaseKafkaSuccessOperationsCountMetric KafkaOperationDeprovision])"
proof (induction c n w rule: countDeprovisioned.induct)
  case (1 counter rowsAffected w)
  show ?case
  proof (cases "counter < rowsAffected")
    case True
    then have "nat (rowsAffected - counter) = Suc (nat (rowsAffected - (counter + 1)))"
      by simp
    with True "1" show ?thesis
      by (subst countDeprovisioned.simps) (simp add: emit_def)
  next
    case False
    then show ?thesis
      by (subst countDeprovisioned.simps) simp
  qed
qed

lemma DeprovisionExpiredKafkas_rows:
  "rows (snd (DeprovisionExpiredKafkas k a w))
     = (if connectionFactory k DbUpdateExpired = None
        then map (\<lambda>r. if live r \<and> expired k a r
                       then r\<lparr>Status := KafkaStatus_String KafkaRequestStatusDeprovision,
                              UpdatedAt := time_Now k\<rparr>
                       else r) (rows w)
        else rows w)"
  by (auto simp add: DeprovisionExpiredKafkas_def Let_def countDeprovisioned_rows
        db_Update_where_def split: option.splits)

lemma expired_exempt:
  "ID r \<in> set (LongLivedKafkas (kafkaConfig k)) \<Longrightarrow> \<not> expired k a r"
  by (auto simp add: expired_def)

lemma expired_in_range:
  assumes "- 2562047 \<le> sint a" "sint a \<le> 2562047"
  shows "expired k a r \<longleftrightarrow>
           sint a * 3600000000000 \<le> time_Now k - CreatedAt r
           \<and> Status r \<noteq> KafkaStatus_String KafkaRequestStatusDeprovision
           \<and> Status r \<noteq> KafkaStatus_String KafkaRequestStatusDeleting
           \<and> ID r \<notin> set (LongLivedKafkas (kafkaConfig k))"
  using expiryCutoff_in_range [OF assms, of k]
  by (auto simp add: expired_def deletion_status_iff)

text \<open>
  Claim C7, amended. In every call of \<open>DeprovisionExpiredKafkas\<close> the table keeps its
  length and a row whose id is in the list of long-lived Kafkas is left as it was,
  whatever the age and whatever the store answers. When the store does not fail the
  update and the age in hours lies between \<open>-2562047\<close> and \<open>2562047\<close> (so that the
  age in nanoseconds fits a 64-bit duration), no error is returned and exactly the
  live rows that are at least that many hours old, whose status is neither
  Deprovision nor Deleting and whose id is not in the list get the status Deprovision
  and the time of the update, every other row being left as it was; the deprovision
  total and success counters are increased once for each of these rows. When the
  store fails the update, the call returns the general error "unable to deprovision
  expired kafkas" and changes nothing.
\<close>

theorem DeprovisionExpiredKafkas_selection:
  "length (rows (snd (DeprovisionExpiredKafkas k a w))) = length (rows w)
   \<and> (\<forall>i < length (rows w).
         ID (rows w ! i) \<in> set (LongLivedKafkas (kafkaConfig k))
         \<longrightarrow> rows (snd (DeprovisionExpiredKafkas k a w)) ! i = rows w ! i)
   \<and> (connectionFactory k DbUpdateExpired = None \<and> - 2562047 \<le> sint a \<and> sint a \<le> 2562047
        \<longrightarrow>
          fst (DeprovisionExpiredKafkas k a w) = None
          \<and> rows (snd (DeprovisionExpiredKafkas k a w))
              = map (\<lambda>r. if live r
                              \<and> sint a * 3600000000000 \<le> time_Now k - CreatedAt r
                              \<and> Status r \<noteq> KafkaStatus_String KafkaRequestStatusDeprovision
                              \<and> Status r \<noteq> KafkaStatus_String KafkaRequestStatusDeleting
                              \<and> ID r \<notin> set (LongLivedKafkas (kafkaConfig k))
                           then r\<lparr>Status := KafkaStatus_String KafkaRequestStatusDeprovision,
                                  UpdatedAt := time_Now k\<rparr>
                           else r) (rows w)
          \<and> effects (snd (DeprovisionExpiredKafkas k a w))
              = effects w
                @ concat (replicate
                    (length (filter (\<lambda>r. live r
                              \<and> sint a * 3600000000000 \<le> time_Now k - CreatedAt r
                              \<and> Status r \<noteq> KafkaStatus_String KafkaRequestStatusDeprovision
                              \<and> Status r \<noteq> KafkaStatus_String KafkaRequestStatusDeleting
                              \<and> ID r \<notin> set (LongLivedKafkas (kafkaConfig k))) (rows w)))
                    [IncreaseKafkaTotalOperationsCountMetric KafkaOperationDeprovision,
                     IncreaseKafkaSuccessOperationsCountMetric KafkaOperationDeprovision]))
   \<and> (connectionFactory k DbUpdateExpired \<noteq> None
        \<longrightarrow> DeprovisionExpiredKafkas k a w
              = (Some (NewWithCause ErrorGeneral ''unable to deprovision expired kafkas''), w))"
proof -
  have len: "length (rows (snd (DeprovisionExpiredKafkas k a w))) = length (rows w)"
    by (simp add: DeprovisionExpiredKafkas_rows)
  have exempt: "rows (snd (DeprovisionExpiredKafkas k a w)) ! i = rows w ! i"
    if "i < length (rows w)" "ID (rows w ! i) \<in> set (LongLivedKafkas (kafkaConfig k))" for i
    using that expired_exempt [of "rows w ! i" k a]
    by (simp add: DeprovisionExpiredKafkas_rows)
  have fail: "DeprovisionExpiredKafkas k a w
              = (Some (NewWithCause ErrorGeneral ''unable to deprovision expired kafkas''), w)"
    if "connectionFactory k DbUpdateExpired \<noteq> None"
    using that by (auto simp add: DeprovisionExpiredKafkas_def)
  have good: "fst (DeprovisionExpiredKafkas k a w) = None
          \<and> rows (snd (DeprovisionExpiredKafkas k a w))
              = map (\<lambda>r. if live r
                              \<and> sint a * 3600000000000 \<le> time_Now k - CreatedAt r
                              \<and> Status r \<noteq> KafkaStatus_String KafkaRequestStatusDeprovision
                              \<and> Status r \<noteq> KafkaStatus_String KafkaRequestStatusDeleting
                              \<and> ID r \<notin> set (LongLivedKafkas (kafkaConfig k))
                           then r\<lparr>Status := KafkaStatus_String KafkaRequestStatusDeprovision,
                                  UpdatedAt := time_Now k\<rparr>
                           else r) (rows w)
          \<and> effects (snd (DeprovisionExpiredKafkas k a w))
              = effects w
                @ concat (replicate
                    (length (filter (\<lambda>r. live r
                              \<and> sint a * 3600000000000 \<le> time_Now k - CreatedAt r
                              \<and> Status r \<noteq> KafkaStatus_String KafkaRequestStatusDeprovision
                              \<and> Status r \<noteq> KafkaStatus_String KafkaRequestStatusDeleting
                              \<and> ID r \<notin> set (LongLivedKafkas (kafkaConfig k))) (rows w)))
                    [IncreaseKafkaTotalOperationsCountMetric KafkaOperationDeprovision,
                     IncreaseKafkaSuccessOperationsCountMetric KafkaOperationDeprovision])"
    if st: "connectionFactory k DbUpdateExpired = None"
       and lo: "- 2562047 \<le> sint a" and hi: "sint a \<le> 2562047"
  proof -
    note ex = expired_in_range [OF lo hi, of k]
    have f: "fst (DeprovisionExpiredKafkas k a w) = None"
      using st by (simp add: DeprovisionExpiredKafkas_def Let_def)
    have r: "rows (snd (DeprovisionExpiredKafkas k a w))
              = map (\<lambda>r. if live r \<and> expired k a r
                           then r\<lparr>Status := KafkaStatus_String KafkaRequestStatusDeprovision,
                                  UpdatedAt := time_Now k\<rparr>
                           else r) (rows w)"
      using st by (simp add: DeprovisionExpiredKafkas_rows)
    have e: "effects (snd (DeprovisionExpiredKafkas k a w))
              = effects w
                @ concat (replicate (length (filter (\<lambda>r. live r \<and> expired k a r) (rows w)))
                    [IncreaseKafkaTotalOperationsCountMetric KafkaOperationDeprovision,
                     IncreaseKafkaSuccessOperationsCountMetric KafkaOperationDeprovision])"
    proof (cases "filter (\<lambda>r. live r \<and> expired k a r) (rows w)")
      case Nil
      with st show ?thesis
        by (simp add: DeprovisionExpiredKafkas_def Let_def db_RowsAffected_def)
    next
      case (Cons x xs)
      have n: "nat (1 + int (length xs)) = Suc (length xs)"
        by simp
      from Cons st show ?thesis
        by (simp add: DeprovisionExpiredKafkas_def Let_def db_RowsAffected_def
              countDeprovisioned_effects n)
    qed
    from f r e show ?thesis
      by (simp add: ex conj_assoc)
  qed
  from len exempt fail good show ?thesis
    by blast
qed

lemma expiryCutoff_overflow:
  "expiryCutoff k 2562048 = time_Now k + 9223371273709551616"
  by (simp add: expiryCutoff_def time_Hour_def)

theorem DeprovisionExpiredKafkas_selection_witness:
  "fst (DeprovisionExpiredKafkas example_service 48 example_world) = None
   \<and> map Status (rows (snd (DeprovisionExpiredKafkas example_service 48 example_world)))
       = [''deprovision'', ''deprovision'', ''ready'', ''ready'']
   \<and> rows (snd (DeprovisionExpiredKafkas example_service 48 example_world)) ! 2
       = example_row ''keep'' ''ready'' 3240000000000000
   \<and> effects (snd (DeprovisionExpiredKafkas example_service 48 example_world))
       = [IncreaseKafkaTotalOperationsCountMetric KafkaOperationDeprovision,
          IncreaseKafkaSuccessOperationsCountMetric KafkaOperationDeprovision]
   \<and> DeprovisionExpiredKafkas (failing DbUpdateExpired example_service) 48 example_world
       = (Some (NewWithCause ErrorGeneral ''unable to deprovision expired kafkas''), example_world)"
proof -
  let ?kf = "failing DbUpdateExpired example_service"
  have c: "connectionFactory example_service DbUpdateExpired = None"
          "connectionFactory ?kf DbUpdateExpired \<noteq> None"
    by (simp_all add: example_simps)
  have a: "- 2562047 \<le> sint (48 :: 64 word)" "sint (48 :: 64 word) \<le> 2562047"
    by simp_all
  have v: "time_Now example_service = 3600000000000000"
          "LongLivedKafkas (kafkaConfig example_service) = [''keep'']"
          "sint (48 :: 64 word) = 48"
    by (simp_all add: example_simps)
  have i: "(2::nat) < length (rows example_world)"
          "ID (rows example_world ! 2) \<in> set (LongLivedKafkas (kafkaConfig example_service))"
          "rows example_world ! 2 = example_row ''keep'' ''ready'' 3240000000000000"
    by (simp_all add: example_simps)
  note t = DeprovisionExpiredKafkas_selection [of example_service 48 example_world]
  from t c(1) a have
    "fst (DeprovisionExpiredKafkas example_service 48 example_world) = None
     \<and> rows (snd (DeprovisionExpiredKafkas example_service 48 example_world))
              = map (\<lambda>r. if live r
                              \<and> sint (48 :: 64 word) * 3600000000000
                                  \<le> time_Now example_service - CreatedAt r
                              \<and> Status r \<noteq> KafkaStatus_String KafkaRequestStatusDeprovision
                              \<and> Status r \<noteq> KafkaStatus_String KafkaRequestStatusDeleting
                              \<and> ID r \<notin> set (LongLivedKafkas (kafkaConfig example_service))
                           then r\<lparr>Status := KafkaStatus_String KafkaRequestStatusDeprovision,
                                  UpdatedAt := time_Now example_service\<rparr>
                           else r) (rows example_world)
     \<and> effects (snd (DeprovisionExpiredKafkas example_service 48 example_world))
              = effects example_world
                @ concat (replicate
                    (length (filter (\<lambda>r. live r
                              \<and> sint (48 :: 64 word) * 3600000000000
                                  \<le> time_Now example_service - CreatedAt r
                              \<and> Status r \<noteq> KafkaStatus_String KafkaRequestStatusDeprovision
                              \<and> Status r \<noteq> KafkaStatus_String KafkaRequestStatusDeleting
                              \<and> ID r \<notin> set (LongLivedKafkas (kafkaConfig example_service)))
                            (rows example_world)))
                    [IncreaseKafkaTotalOperationsCountMetric KafkaOperationDeprovision,
                     IncreaseKafkaSuccessOperationsCountMetric KafkaOperationDeprovision])"
    by blast
  then have A: "fst (DeprovisionExpiredKafkas example_service 48 example_world) = None
     \<and> map Status (rows (snd (DeprovisionExpiredKafkas example_service 48 example_world)))
         = [''deprovision'', ''deprovision'', ''ready'', ''ready'']
     \<and> effects (snd (DeprovisionExpiredKafkas example_service 48 example_world))
         = [IncreaseKafkaTotalOperationsCountMetric KafkaOperationDeprovision,
            IncreaseKafkaSuccessOperationsCountMetric KafkaOperationDeprovision]"
    by (simp add: v example_world_def example_row_def live_def)
  from t i have B: "rows (snd (DeprovisionExpiredKafkas example_service 48 example_world)) ! 2
       = example_row ''keep'' ''ready'' 3240000000000000"
    by simp
  from t c(2) have C: "DeprovisionExpiredKafkas ?kf 48 example_world
       = (Some (NewWithCause ErrorGeneral ''unable to deprovision expired kafkas''), example_world)"
    using DeprovisionExpiredKafkas_selection [of ?kf 48 example_world] by blast
  from A B C show ?thesis by simp
qed

lemma DeprovisionExpiredKafkas_fst:
  "fst (DeprovisionExpiredKafkas k a w)
     = (if connectionFactory k DbUpdateExpired = None then None
        else Some (NewWithCause ErrorGeneral ''unable to deprovision expired kafkas''))"
  by (auto simp add: DeprovisionExpiredKafkas_def Let_def split: option.splits)

text \<open>
  Claim C7 as stated fails in two ways. For an age of 2562048 hours the duration
  wraps around to a positive number of nanoseconds, the cutoff lies in the future,
  and the record \<open>k3\<close>, one hour old, is set to Deprovision. And when the store fails
  the update, the record \<open>k1\<close>, a hundred hours old, in status Accepted and not
  exempt, keeps its status for an age of 48 hours.
\<close>

theorem DeprovisionExpiredKafkas_overflow:
  "sint (2562048 :: 64 word) = 2562048
   \<and> rows example_world ! 3 = example_row ''k3'' ''ready'' 3596400000000000
   \<and> time_Now example_service - CreatedAt (rows example_world ! 3) = 3600000000000
   \<and> fst (DeprovisionExpiredKafkas example_service 2562048 example_world) = None
   \<and> Status (rows (snd (DeprovisionExpiredKafkas example_service 2562048 example_world)) ! 3)
       = ''deprovision''
   \<and> sint (48 :: 64 word) = 48
   \<and> rows example_world ! 0 = example_row ''k1'' ''accepted'' 3240000000000000
   \<and> time_Now example_service - CreatedAt (rows example_world ! 0) = 100 * 3600000000000
   \<and> Status (rows (snd (DeprovisionExpiredKafkas (failing DbUpdateExpired example_service) 48
        example_world)) ! 0) = ''accepted''"
proof -
  have a: "sint (2562048 :: 64 word) = 2562048" "sint (48 :: 64 word) = 48"
    by simp_all
  have b: "rows example_world ! 3 = example_row ''k3'' ''ready'' 3596400000000000"
          "time_Now example_service - CreatedAt (rows example_world ! 3) = 3600000000000"
          "rows example_world ! 0 = example_row ''k1'' ''accepted'' 3240000000000000"
          "time_Now example_service - CreatedAt (rows example_world ! 0) = 100 * 3600000000000"
    by (simp_all add: example_simps)
  have c: "fst (DeprovisionExpiredKafkas example_service 2562048 example_world) = None"
    by (simp add: DeprovisionExpiredKafkas_fst example_simps)
  have d: "Status (rows (snd (DeprovisionExpiredKafkas example_service 2562048 example_world)) ! 3)
       = ''deprovision''"
    by (simp add: DeprovisionExpiredKafkas_rows expired_def expiryCutoff_overflow
          live_def kafkaDeletionStatuses_def example_simps)
  have e: "Status (rows (snd (DeprovisionExpiredKafkas (failing DbUpdateExpired example_service) 48
        example_world)) ! 0) = ''accepted''"
    by (simp add: DeprovisionExpiredKafkas_rows example_simps)
  from a b c d e show ?thesis by simp
qed

end
